theory Spec2Isabelle
  imports Main "HOL-Library.Word"
begin

unbundle bit_operations_syntax

section \<open>Door locker security system: Control ECU and HMI ECU\<close>

text \<open>
  A shallow embedding of the two applications of the repository:
  \<^item> \<^verbatim>\<open>Control/main.c\<close>, the Control ECU (the security authority): password and
    timeout storage in EEPROM, the opcode dispatcher and the door sequence;
  \<^item> \<^verbatim>\<open>main.c\<close>, the HMI ECU: the password dialogs with their attempt counter and
    the countdown receive loop;
  \<^item> \<^verbatim>\<open>Control/eeprom.c\<close>, the word-addressed EEPROM driver.

  Conventions.
  \<^item> \<^verbatim>\<open>uint8_t\<close> and \<^verbatim>\<open>char\<close> are \<open>8 word\<close> (plain \<^verbatim>\<open>char\<close> is unsigned on the
    ARM target, so \<^verbatim>\<open>(uint32_t)password[i]\<close> is \<open>ucast\<close>); \<^verbatim>\<open>uint32_t\<close> is \<open>32 word\<close>.
  \<^item> A \<^verbatim>\<open>char[6]\<close> buffer is a list of bytes; \<^verbatim>\<open>strcmp\<close> and \<^verbatim>\<open>strcpy\<close> stop at the
    first NUL byte as the C library does.
  \<^item> The serial channel is byte oriented and has no framing. The receive side is a
    list of events: \<open>Some b\<close> is the arrival of byte \<open>b\<close>, \<open>None\<close> is a silence long
    enough to expire the bounded wait that is pending (an unbounded wait skips it).
    An exhausted list is silence for ever. The transmit side is the list of bytes
    sent so far, oldest first.
  \<^item> \<^verbatim>\<open>DelayMs\<close>, the motor, the buzzer and the LCD text do not touch the state the
    protocol depends on and are left out; the countdown values written to the LCD
    are kept.
\<close>

type_synonym u8 = "8 word"
type_synonym u32 = "32 word"

subsection \<open>Protocol constants (both \<^verbatim>\<open>main.c\<close> files)\<close>

definition CMD_SETUP_PASSWORD :: u8 where "CMD_SETUP_PASSWORD = 0x01"
definition CMD_VERIFY_PASSWORD :: u8 where "CMD_VERIFY_PASSWORD = 0x02"
definition CMD_CHANGE_PASSWORD :: u8 where "CMD_CHANGE_PASSWORD = 0x03"
definition CMD_SET_TIMEOUT :: u8 where "CMD_SET_TIMEOUT = 0x04"
definition CMD_OPEN_DOOR :: u8 where "CMD_OPEN_DOOR = 0x05"
definition CMD_ERASE_EEPROM :: u8 where "CMD_ERASE_EEPROM = 0x06"
definition CMD_CHECK_PASSWORD :: u8 where "CMD_CHECK_PASSWORD = 0x07"
definition CMD_TRIGGER_LOCKOUT :: u8 where "CMD_TRIGGER_LOCKOUT = 0x08"

definition RESP_PASSWORD_MATCH :: u8 where "RESP_PASSWORD_MATCH = 0x10"
definition RESP_PASSWORD_MISMATCH :: u8 where "RESP_PASSWORD_MISMATCH = 0x11"
definition RESP_TIMEOUT_SAVED :: u8 where "RESP_TIMEOUT_SAVED = 0x12"
definition RESP_DOOR_UNLOCKING :: u8 where "RESP_DOOR_UNLOCKING = 0x13"
definition RESP_DOOR_LOCKING :: u8 where "RESP_DOOR_LOCKING = 0x14"
definition RESP_DOOR_LOCKED :: u8 where "RESP_DOOR_LOCKED = 0x15"
definition RESP_SYSTEM_LOCKED :: u8 where "RESP_SYSTEM_LOCKED = 0x16"
definition RESP_EEPROM_ERASED :: u8 where "RESP_EEPROM_ERASED = 0x17"
definition RESP_PASSWORD_EXISTS :: u8 where "RESP_PASSWORD_EXISTS = 0x18"
definition RESP_NO_PASSWORD :: u8 where "RESP_NO_PASSWORD = 0x19"
definition RESP_COUNTDOWN_START :: u8 where "RESP_COUNTDOWN_START = 0x1A"
definition RESP_TIMEOUT :: u8 where "RESP_TIMEOUT = 0xFF"

definition PASSWORD_LENGTH :: nat where "PASSWORD_LENGTH = 5"
definition DEFAULT_TIMEOUT :: u8 where "DEFAULT_TIMEOUT = 5"
definition LOCKOUT_DURATION :: u8 where "LOCKOUT_DURATION = 10"
definition PASSWORD_VALID_MARKER :: u32 where "PASSWORD_VALID_MARKER = 0xAA55AA55"

definition EEPROM_PASSWORD_BLOCK :: u32 where "EEPROM_PASSWORD_BLOCK = 0"
definition EEPROM_PASSWORD_OFFSET :: u32 where "EEPROM_PASSWORD_OFFSET = 0"
definition EEPROM_TIMEOUT_BLOCK :: u32 where "EEPROM_TIMEOUT_BLOCK = 0"
definition EEPROM_TIMEOUT_OFFSET :: u32 where "EEPROM_TIMEOUT_OFFSET = 2"
definition EEPROM_VALID_FLAG_BLOCK :: u32 where "EEPROM_VALID_FLAG_BLOCK = 0"
definition EEPROM_VALID_FLAG_OFFSET :: u32 where "EEPROM_VALID_FLAG_OFFSET = 3"

lemmas cmd_defs =
  CMD_SETUP_PASSWORD_def CMD_VERIFY_PASSWORD_def CMD_CHANGE_PASSWORD_def CMD_SET_TIMEOUT_def
  CMD_OPEN_DOOR_def CMD_ERASE_EEPROM_def CMD_CHECK_PASSWORD_def CMD_TRIGGER_LOCKOUT_def

lemmas resp_defs =
  RESP_PASSWORD_MATCH_def RESP_PASSWORD_MISMATCH_def RESP_TIMEOUT_SAVED_def
  RESP_DOOR_UNLOCKING_def RESP_DOOR_LOCKING_def RESP_DOOR_LOCKED_def RESP_SYSTEM_LOCKED_def
  RESP_EEPROM_ERASED_def RESP_PASSWORD_EXISTS_def RESP_NO_PASSWORD_def
  RESP_COUNTDOWN_START_def RESP_TIMEOUT_def

lemmas layout_defs =
  EEPROM_PASSWORD_BLOCK_def EEPROM_PASSWORD_OFFSET_def EEPROM_TIMEOUT_BLOCK_def
  EEPROM_TIMEOUT_OFFSET_def EEPROM_VALID_FLAG_BLOCK_def EEPROM_VALID_FLAG_OFFSET_def

subsection \<open>C strings\<close>

text \<open>
  \<^verbatim>\<open>strcmp\<close> compares byte by byte up to the first difference or the first NUL; only
  its being zero is ever tested. Every buffer the program passes carries a NUL at
  index 5; the end of a list is read as that terminator.
\<close>

fun strcmp :: "u8 list \<Rightarrow> u8 list \<Rightarrow> int" where
  "strcmp (a # as) (b # bs) =
     (if a \<noteq> b then uint a - uint b else if a = 0 then 0 else strcmp as bs)"
| "strcmp [] (b # bs) = - uint b"
| "strcmp (a # as) [] = uint a"
| "strcmp [] [] = 0"

text \<open>
  \<^verbatim>\<open>strcpy dest src\<close> copies up to and including the first NUL of \<open>src\<close>; the bytes of
  \<open>dest\<close> behind it keep their value.
\<close>

fun strcpy :: "u8 list \<Rightarrow> u8 list \<Rightarrow> u8 list" where
  "strcpy (d # ds) (c # cs) = (if c = 0 then 0 # ds else c # strcpy ds cs)"
| "strcpy (d # ds) [] = 0 # ds"
| "strcpy [] cs = []"

subsection \<open>EEPROM driver (\<^verbatim>\<open>Control/eeprom.c\<close>)\<close>

type_synonym eeprom_mem = "u32 \<Rightarrow> u32"

definition EEPROM_SUCCESS :: u8 where "EEPROM_SUCCESS = 0"
definition EEPROM_ERROR :: u8 where "EEPROM_ERROR = 1"
definition EEPROM_BLOCK_SIZE :: u32 where "EEPROM_BLOCK_SIZE = 16"
definition EEPROM_WORD_SIZE :: u32 where "EEPROM_WORD_SIZE = 4"
definition EEPROM_TOTAL_BLOCKS :: u32 where "EEPROM_TOTAL_BLOCKS = 32"

lemmas eeprom_consts =
  EEPROM_SUCCESS_def EEPROM_ERROR_def EEPROM_BLOCK_SIZE_def EEPROM_WORD_SIZE_def
  EEPROM_TOTAL_BLOCKS_def

text \<open>
  \<^verbatim>\<open>EEPROMProgram\<close>, \<^verbatim>\<open>EEPROMRead\<close> and \<^verbatim>\<open>EEPROMMassErase\<close> belong to the vendor's
  TivaWare library, not to the repository. They are modelled as the word store that
  the driver's comments describe: the memory is a function from byte address to
  word, \<^verbatim>\<open>EEPROMProgram\<close> "writes a word" and returns 0 (success), \<^verbatim>\<open>EEPROMRead\<close>
  "reads a word", and \<^verbatim>\<open>EEPROMMassErase\<close> "erases the entire EEPROM (sets all bits
  to 1)".
\<close>

definition EEPROMProgram :: "u32 \<Rightarrow> u32 \<Rightarrow> eeprom_mem \<Rightarrow> u32 \<times> eeprom_mem" where
  "EEPROMProgram data address mem = (0, mem(address := data))"

definition EEPROMRead :: "u32 \<Rightarrow> eeprom_mem \<Rightarrow> u32" where
  "EEPROMRead address mem = mem address"

definition EEPROMMassErase :: "eeprom_mem \<Rightarrow> u32 \<times> eeprom_mem" where
  "EEPROMMassErase mem = (0, \<lambda>address. 0xFFFFFFFF)"

definition CalculateAddress :: "u32 \<Rightarrow> u32 \<Rightarrow> u32" where
  "CalculateAddress block offset =
     block * EEPROM_BLOCK_SIZE * EEPROM_WORD_SIZE + offset * EEPROM_WORD_SIZE"

definition EEPROM_WriteWord :: "u32 \<Rightarrow> u32 \<Rightarrow> u32 \<Rightarrow> eeprom_mem \<Rightarrow> u8 \<times> eeprom_mem" where
  "EEPROM_WriteWord block offset data mem =
     (if block \<ge> EEPROM_TOTAL_BLOCKS \<or> offset \<ge> EEPROM_BLOCK_SIZE then (EEPROM_ERROR, mem)
      else case EEPROMProgram data (CalculateAddress block offset) mem of
        (result, mem') \<Rightarrow> if result \<noteq> 0 then (EEPROM_ERROR, mem') else (EEPROM_SUCCESS, mem'))"

text \<open>
  \<^verbatim>\<open>EEPROM_ReadWord\<close> writes through its pointer only when the parameters are valid:
  \<open>data\<close> is the value the caller's variable held before the call.
\<close>

definition EEPROM_ReadWord :: "u32 \<Rightarrow> u32 \<Rightarrow> u32 \<Rightarrow> eeprom_mem \<Rightarrow> u8 \<times> u32" where
  "EEPROM_ReadWord block offset data mem =
     (if block \<ge> EEPROM_TOTAL_BLOCKS \<or> offset \<ge> EEPROM_BLOCK_SIZE then (EEPROM_ERROR, data)
      else (EEPROM_SUCCESS, EEPROMRead (CalculateAddress block offset) mem))"

definition EEPROM_MassErase :: "eeprom_mem \<Rightarrow> u8 \<times> eeprom_mem" where
  "EEPROM_MassErase mem =
     (case EEPROMMassErase mem of
        (result, mem') \<Rightarrow> if result \<noteq> 0 then (EEPROM_ERROR, mem') else (EEPROM_SUCCESS, mem'))"

subsection \<open>Control ECU: state and channel\<close>

record control =
  eeprom :: eeprom_mem
  g_storedPassword :: "u8 list"
  g_autoLockTimeout :: u8
  uart_rx :: "u8 option list"
  uart_tx :: "u8 list"

definition UART5_SendChar :: "u8 \<Rightarrow> control \<Rightarrow> control" where
  "UART5_SendChar c s = s\<lparr>uart_tx := uart_tx s @ [c]\<rparr>"

text \<open>
  The receive pattern of the Control ECU, written out three times in the source:
  poll \<^verbatim>\<open>UART5_IsDataAvailable\<close> for at most 1000 ms, then take the byte if there is
  one and the default value otherwise.
\<close>

definition UART5_WaitChar :: "u8 \<Rightarrow> control \<Rightarrow> u8 \<times> control" where
  "UART5_WaitChar dflt s =
     (case uart_rx s of
        [] \<Rightarrow> (dflt, s)
      | None # r \<Rightarrow> (dflt, s\<lparr>uart_rx := r\<rparr>)
      | Some c # r \<Rightarrow> (c, s\<lparr>uart_rx := r\<rparr>))"

fun ReceivePassword_loop :: "nat \<Rightarrow> control \<Rightarrow> u8 list \<times> control" where
  "ReceivePassword_loop 0 s = ([], s)"
| "ReceivePassword_loop (Suc n) s =
     (case UART5_WaitChar 0x30 s of
        (c, s1) \<Rightarrow> (case ReceivePassword_loop n s1 of (cs, s2) \<Rightarrow> (c # cs, s2)))"

definition ReceivePassword :: "control \<Rightarrow> u8 list \<times> control" where
  "ReceivePassword s =
     (case ReceivePassword_loop PASSWORD_LENGTH s of (cs, s1) \<Rightarrow> (cs @ [0], s1))"

subsection \<open>Control ECU: persistence\<close>

definition VerifyPassword :: "u8 list \<Rightarrow> control \<Rightarrow> bool" where
  "VerifyPassword password s = (strcmp password (g_storedPassword s) = 0)"

text \<open>
  The packing expression of \<^verbatim>\<open>SavePassword\<close> and the unpacking of \<^verbatim>\<open>LoadPassword\<close>,
  under the names the specification gives them.
\<close>

definition EncodeCredential :: "u8 list \<Rightarrow> u32 \<times> u32" where
  "EncodeCredential password =
     (push_bit 24 (ucast (password ! 0)) OR push_bit 16 (ucast (password ! 1)) OR
      push_bit 8 (ucast (password ! 2)) OR ucast (password ! 3),
      push_bit 24 (ucast (password ! 4)))"

definition DecodeCredential :: "u32 \<Rightarrow> u32 \<Rightarrow> u8 list" where
  "DecodeCredential data1 data2 =
     [ucast (drop_bit 24 data1 AND 0xFF), ucast (drop_bit 16 data1 AND 0xFF),
      ucast (drop_bit 8 data1 AND 0xFF), ucast (data1 AND 0xFF),
      ucast (drop_bit 24 data2 AND 0xFF)]"

definition MarkPasswordAsValid :: "control \<Rightarrow> control" where
  "MarkPasswordAsValid s =
     s\<lparr>eeprom := snd (EEPROM_WriteWord EEPROM_VALID_FLAG_BLOCK EEPROM_VALID_FLAG_OFFSET
                       PASSWORD_VALID_MARKER (eeprom s))\<rparr>"

definition SavePassword :: "u8 list \<Rightarrow> control \<Rightarrow> control" where
  "SavePassword password s =
     (case EncodeCredential password of
        (data1, data2) \<Rightarrow>
          let s1 = s\<lparr>eeprom := snd (EEPROM_WriteWord EEPROM_PASSWORD_BLOCK
                                      EEPROM_PASSWORD_OFFSET data1 (eeprom s))\<rparr>;
              s2 = s1\<lparr>eeprom := snd (EEPROM_WriteWord EEPROM_PASSWORD_BLOCK
                                       (EEPROM_PASSWORD_OFFSET + 1) data2 (eeprom s1))\<rparr>;
              s3 = MarkPasswordAsValid s2
          in s3\<lparr>g_storedPassword := strcpy (g_storedPassword s3) password\<rparr>)"

text \<open>
  The locals \<^verbatim>\<open>data1\<close>, \<^verbatim>\<open>data2\<close>, \<^verbatim>\<open>data\<close> and \<^verbatim>\<open>validFlag\<close> of the readers are not
  initialised; \<open>0\<close> stands for their value before the call, which the call always
  overwrites (lemma \<open>EEPROM_ReadWord_valid\<close>).
\<close>

definition LoadPassword :: "control \<Rightarrow> control" where
  "LoadPassword s =
     (let data1 = snd (EEPROM_ReadWord EEPROM_PASSWORD_BLOCK EEPROM_PASSWORD_OFFSET 0 (eeprom s));
          data2 = snd (EEPROM_ReadWord EEPROM_PASSWORD_BLOCK (EEPROM_PASSWORD_OFFSET + 1) 0
                         (eeprom s))
      in s\<lparr>g_storedPassword := DecodeCredential data1 data2 @ [0]\<rparr>)"

text \<open>
  The low byte and the range check of \<^verbatim>\<open>LoadTimeout\<close>, under the name the
  specification gives the decoding.
\<close>

definition DecodeTimeout :: "u32 \<Rightarrow> u8" where
  "DecodeTimeout data =
     (let t = (ucast (data AND 0xFF) :: u8)
      in if t < 5 \<or> t > 30 then DEFAULT_TIMEOUT else t)"

definition LoadTimeout :: "control \<Rightarrow> control" where
  "LoadTimeout s =
     (let data = snd (EEPROM_ReadWord EEPROM_TIMEOUT_BLOCK EEPROM_TIMEOUT_OFFSET 0 (eeprom s))
      in s\<lparr>g_autoLockTimeout := DecodeTimeout data\<rparr>)"

definition SaveTimeout :: "u8 \<Rightarrow> control \<Rightarrow> control" where
  "SaveTimeout timeout s =
     (let data = (ucast timeout :: u32)
      in s\<lparr>eeprom := snd (EEPROM_WriteWord EEPROM_TIMEOUT_BLOCK EEPROM_TIMEOUT_OFFSET data
                            (eeprom s)),
           g_autoLockTimeout := timeout\<rparr>)"

definition IsPasswordValid :: "control \<Rightarrow> bool" where
  "IsPasswordValid s =
     (snd (EEPROM_ReadWord EEPROM_VALID_FLAG_BLOCK EEPROM_VALID_FLAG_OFFSET 0 (eeprom s))
        = PASSWORD_VALID_MARKER)"

subsection \<open>Control ECU: opcode handlers\<close>

definition HandleCheckPassword :: "control \<Rightarrow> control" where
  "HandleCheckPassword s =
     (if IsPasswordValid s then UART5_SendChar RESP_PASSWORD_EXISTS s
      else UART5_SendChar RESP_NO_PASSWORD s)"

definition HandleSetupPassword :: "control \<Rightarrow> control" where
  "HandleSetupPassword s =
     (case ReceivePassword s of
        (password1, s1) \<Rightarrow>
          (case ReceivePassword s1 of
             (password2, s2) \<Rightarrow>
               if strcmp password1 password2 = 0
               then UART5_SendChar RESP_PASSWORD_MATCH (SavePassword password1 s2)
               else UART5_SendChar RESP_PASSWORD_MISMATCH s2))"

definition HandleChangePassword :: "control \<Rightarrow> control" where
  "HandleChangePassword s =
     (case ReceivePassword s of
        (password, s1) \<Rightarrow>
          if VerifyPassword password s1 then UART5_SendChar RESP_PASSWORD_MATCH s1
          else UART5_SendChar RESP_PASSWORD_MISMATCH s1)"

definition HandleSetTimeout :: "control \<Rightarrow> control" where
  "HandleSetTimeout s =
     (case ReceivePassword s of
        (password, s1) \<Rightarrow>
          (case UART5_WaitChar DEFAULT_TIMEOUT s1 of
             (timeout, s2) \<Rightarrow>
               if VerifyPassword password s2
               then UART5_SendChar RESP_TIMEOUT_SAVED (SaveTimeout timeout s2)
               else UART5_SendChar RESP_PASSWORD_MISMATCH s2))"

definition SendCountdown :: "u8 \<Rightarrow> control \<Rightarrow> control" where
  "SendCountdown seconds s = UART5_SendChar seconds s"

text \<open>The loop \<^verbatim>\<open>for (i = g_autoLockTimeout; i > 0; i--)\<close> of \<^verbatim>\<open>PerformDoorOperation\<close>.\<close>

function PerformDoorOperation_loop :: "u8 \<Rightarrow> control \<Rightarrow> control" where
  "PerformDoorOperation_loop i s =
     (if i > 0 then PerformDoorOperation_loop (i - 1) (SendCountdown i s) else s)"
  by pat_completeness auto
termination
  by (relation "measure (\<lambda>(i, s). unat i)") (auto simp: word_greater_zero_iff unat_minus_one unat_gt_0)

declare PerformDoorOperation_loop.simps [simp del]

definition PerformDoorOperation :: "control \<Rightarrow> control" where
  "PerformDoorOperation s =
     (let s1 = UART5_SendChar RESP_DOOR_UNLOCKING s;
          s2 = UART5_SendChar RESP_COUNTDOWN_START s1;
          s3 = PerformDoorOperation_loop (g_autoLockTimeout s2) s2;
          s4 = UART5_SendChar RESP_DOOR_LOCKING s3
      in UART5_SendChar RESP_DOOR_LOCKED s4)"

definition HandleOpenDoor :: "control \<Rightarrow> control" where
  "HandleOpenDoor s =
     (case ReceivePassword s of
        (password, s1) \<Rightarrow>
          if VerifyPassword password s1
          then PerformDoorOperation (UART5_SendChar RESP_PASSWORD_MATCH s1)
          else UART5_SendChar RESP_PASSWORD_MISMATCH s1)"

definition TriggerLockout :: "control \<Rightarrow> control" where
  "TriggerLockout s = UART5_SendChar RESP_SYSTEM_LOCKED s"

definition HandleTriggerLockout :: "control \<Rightarrow> control" where
  "HandleTriggerLockout s = TriggerLockout s"

definition HandleEraseEEPROM :: "control \<Rightarrow> control" where
  "HandleEraseEEPROM s =
     (case ReceivePassword s of
        (password, s1) \<Rightarrow>
          if VerifyPassword password s1
          then UART5_SendChar RESP_EEPROM_ERASED
                 (s1\<lparr>eeprom := snd (EEPROM_MassErase (eeprom s1)),
                     g_storedPassword := strcpy (g_storedPassword s1) [0x30, 0x30, 0x30, 0x30, 0x30, 0],
                     g_autoLockTimeout := DEFAULT_TIMEOUT\<rparr>)
          else UART5_SendChar RESP_PASSWORD_MISMATCH s1)"

subsection \<open>Control ECU: the main loop\<close>

text \<open>The \<^verbatim>\<open>switch (command)\<close> of \<^verbatim>\<open>main\<close>; an unknown command is ignored.\<close>

definition dispatch :: "u8 \<Rightarrow> control \<Rightarrow> control" where
  "dispatch command s =
     (if command = CMD_CHECK_PASSWORD then HandleCheckPassword s
      else if command = CMD_SETUP_PASSWORD then HandleSetupPassword s
      else if command = CMD_CHANGE_PASSWORD then HandleChangePassword s
      else if command = CMD_SET_TIMEOUT then HandleSetTimeout s
      else if command = CMD_OPEN_DOOR then HandleOpenDoor s
      else if command = CMD_ERASE_EEPROM then HandleEraseEEPROM s
      else if command = CMD_TRIGGER_LOCKOUT then HandleTriggerLockout s
      else s)"

text \<open>
  One iteration of \<^verbatim>\<open>while (1)\<close>: if a byte is available it is the command. The loop
  never returns; \<open>main_loop n\<close> is the state after \<open>n\<close> iterations.
\<close>

definition main_iteration :: "control \<Rightarrow> control" where
  "main_iteration s =
     (case uart_rx s of
        [] \<Rightarrow> s
      | None # r \<Rightarrow> s\<lparr>uart_rx := r\<rparr>
      | Some command # r \<Rightarrow> dispatch command (s\<lparr>uart_rx := r\<rparr>))"

primrec main_loop :: "nat \<Rightarrow> control \<Rightarrow> control" where
  "main_loop 0 s = s"
| "main_loop (Suc n) s = main_loop n (main_iteration s)"

text \<open>
  \<^verbatim>\<open>main\<close> up to the loop: the statics are zero-initialised (the timeout to its
  default), then the password and the timeout are loaded from EEPROM.
\<close>

definition boot :: "eeprom_mem \<Rightarrow> u8 option list \<Rightarrow> control" where
  "boot mem rx =
     LoadTimeout (LoadPassword
       \<lparr>eeprom = mem, g_storedPassword = [0, 0, 0, 0, 0, 0],
        g_autoLockTimeout = DEFAULT_TIMEOUT, uart_rx = rx, uart_tx = []\<rparr>)"

definition Control_main :: "nat \<Rightarrow> eeprom_mem \<Rightarrow> u8 option list \<Rightarrow> control" where
  "Control_main n mem rx = main_loop n (boot mem rx)"

subsection \<open>HMI ECU: state, keypad and channel (\<^verbatim>\<open>main.c\<close>)\<close>

text \<open>
  The keypad and the potentiometer drivers are not part of the sources; what they
  return is input. \<open>keypad\<close> lists the values of the successive calls of
  \<^verbatim>\<open>Keypad_GetKey\<close> (0: no key); when it is exhausted no key is ever pressed again,
  and a loop that waits for a key never returns (\<open>None\<close>). \<open>pot k\<close> is the value
  of call number \<open>k\<close> of \<^verbatim>\<open>POT_ReadMapped\<close>, cast to \<^verbatim>\<open>uint8_t\<close>.
\<close>

record hmi =
  keypad :: "u8 list"
  pot :: "nat \<Rightarrow> u8"
  pot_reads :: nat
  hmi_rx :: "u8 option list"
  hmi_tx :: "u8 list"
  lcd_countdown :: "u8 list"

definition KEY_SAVE :: u8 where "KEY_SAVE = 0x2A"

definition HMI_SendChar :: "u8 \<Rightarrow> hmi \<Rightarrow> hmi" where
  "HMI_SendChar c h = h\<lparr>hmi_tx := hmi_tx h @ [c]\<rparr>"

text \<open>\<^verbatim>\<open>WaitForResponse\<close>: poll for at most 5000 ms, then the byte or \<^verbatim>\<open>RESP_TIMEOUT\<close>.\<close>

definition WaitForResponse :: "hmi \<Rightarrow> u8 \<times> hmi" where
  "WaitForResponse h =
     (case hmi_rx h of
        [] \<Rightarrow> (RESP_TIMEOUT, h)
      | None # r \<Rightarrow> (RESP_TIMEOUT, h\<lparr>hmi_rx := r\<rparr>)
      | Some c # r \<Rightarrow> (c, h\<lparr>hmi_rx := r\<rparr>))"

text \<open>
  \<^verbatim>\<open>GetPassword\<close>: \<^verbatim>\<open>while (i < PASSWORD_LENGTH)\<close> reads keys and keeps the digits;
  \<open>i\<close> is the length of the password read so far.
\<close>

fun GetPassword_loop :: "u8 list \<Rightarrow> u8 list \<Rightarrow> (u8 list \<times> u8 list) option" where
  "GetPassword_loop password [] =
     (if length password < PASSWORD_LENGTH then None else Some (password, []))"
| "GetPassword_loop password (key # ks) =
     (if length password < PASSWORD_LENGTH
      then (if 0x30 \<le> key \<and> key \<le> 0x39 then GetPassword_loop (password @ [key]) ks
            else GetPassword_loop password ks)
      else Some (password, key # ks))"

definition GetPassword :: "hmi \<Rightarrow> (u8 list \<times> hmi) option" where
  "GetPassword h =
     (case GetPassword_loop [] (keypad h) of
        None \<Rightarrow> None
      | Some (password, ks) \<Rightarrow> Some (password @ [0], h\<lparr>keypad := ks\<rparr>))"

definition SendPassword :: "u8 list \<Rightarrow> hmi \<Rightarrow> hmi" where
  "SendPassword password h =
     foldl (\<lambda>h' i. HMI_SendChar (password ! i) h') h [0..<PASSWORD_LENGTH]"




text \<open>
  The countdown receive loop of \<^verbatim>\<open>HandleOpenDoor\<close>: it has no timeout, ends at the
  first byte equal to \<^verbatim>\<open>RESP_DOOR_LOCKING\<close> and shows every other byte up to 30.
\<close>

fun countdown_loop :: "u8 option list \<Rightarrow> u8 list \<Rightarrow> (u8 option list \<times> u8 list) option" where
  "countdown_loop [] lcd = None"
| "countdown_loop (None # r) lcd = countdown_loop r lcd"
| "countdown_loop (Some countdown # r) lcd =
     (if countdown = RESP_DOOR_LOCKING then Some (r, lcd)
      else if countdown \<le> 30 then countdown_loop r (lcd @ [countdown])
      else countdown_loop r lcd)"

definition ReceiveCountdown :: "hmi \<Rightarrow> hmi option" where
  "ReceiveCountdown h =
     (case countdown_loop (hmi_rx h) (lcd_countdown h) of
        None \<Rightarrow> None
      | Some (r, lcd) \<Rightarrow> Some (h\<lparr>hmi_rx := r, lcd_countdown := lcd\<rparr>))"








text \<open>
  The adjustment loop of \<^verbatim>\<open>HandleSetTimeout\<close>: \<^verbatim>\<open>while (key != KEY_SAVE)\<close>, entered
  with \<^verbatim>\<open>key = 0\<close>; each pass reads the potentiometer, then the keypad.
\<close>

fun adjust_loop :: "(nat \<Rightarrow> u8) \<Rightarrow> nat \<Rightarrow> u8 list \<Rightarrow> (u8 \<times> nat \<times> u8 list) option" where
  "adjust_loop p k [] = None"
| "adjust_loop p k (key # ks) =
     (if key \<noteq> KEY_SAVE then adjust_loop p (Suc k) ks else Some (p k, Suc k, ks))"

definition HMI_HandleSetTimeout :: "hmi \<Rightarrow> hmi option" where
  "HMI_HandleSetTimeout h =
     (case adjust_loop (pot h) (pot_reads h) (keypad h) of
        None \<Rightarrow> None
      | Some (timeout, k, ks) \<Rightarrow>
          (case GetPassword (h\<lparr>pot_reads := k, keypad := ks\<rparr>) of
             None \<Rightarrow> None
           | Some (password, h1) \<Rightarrow>
               (case WaitForResponse
                       (HMI_SendChar timeout
                         (SendPassword password (HMI_SendChar CMD_SET_TIMEOUT h1))) of
                  (response, h2) \<Rightarrow> Some h2)))"


subsection \<open>Auxiliary functions of the proofs\<close>

text \<open>
  What \<^verbatim>\<open>ReceivePassword\<close> makes of the next \<open>n\<close> events of the channel: the byte of an
  arrival, the default \<^verbatim>\<open>'0'\<close> of a silence.
\<close>

definition slot_char :: "u8 option \<Rightarrow> u8" where
  "slot_char e = (case e of None \<Rightarrow> 0x30 | Some c \<Rightarrow> c)"

definition payload :: "nat \<Rightarrow> u8 option list \<Rightarrow> u8 list" where
  "payload n rx = map slot_char (take n rx) @ replicate (n - length rx) 0x30"

text \<open>The bytes \<open>i, i - 1, \<dots>, 1\<close> of a countdown from \<open>i\<close>.\<close>

definition countdown_bytes :: "u8 \<Rightarrow> u8 list" where
  "countdown_bytes i = map of_nat (rev [1..<Suc (unat i)])"

text \<open>The default credential \<^verbatim>\<open>"00000"\<close> that an erase leaves in memory.\<close>

definition zeros :: "u8 list" where
  "zeros = [0x30, 0x30, 0x30, 0x30, 0x30]"

text \<open>
  The next iteration of the main loop is a Setup-password whose two payloads compare
  equal, that is, one that saves a new credential.
\<close>

definition setup_succeeds :: "control \<Rightarrow> bool" where
  "setup_succeeds s =
     (case uart_rx s of
        Some c # r \<Rightarrow> c = CMD_SETUP_PASSWORD \<and>
                      strcmp (payload 5 r @ [0]) (payload 5 (drop 5 r) @ [0]) = 0
      | _ \<Rightarrow> False)"

text \<open>
  What happens to the Control ECU after a successful Erase, as a list of events: bytes
  arrive on the channel, or the main loop makes one iteration. \<open>run\<close> is the state
  after the events; \<open>no_setup_saves\<close> says that none of the iterations is a
  Setup-password that saves a credential. A reboot is not an event: the list describes
  the time up to the next reboot.
\<close>

datatype event = Arrive "u8 option list" | Iterate

fun run :: "control \<Rightarrow> event list \<Rightarrow> control" where
  "run s [] = s"
| "run s (Arrive r # es) = run (s\<lparr>uart_rx := uart_rx s @ r\<rparr>) es"
| "run s (Iterate # es) = run (main_iteration s) es"

fun no_setup_saves :: "control \<Rightarrow> event list \<Rightarrow> bool" where
  "no_setup_saves s [] = True"
| "no_setup_saves s (Arrive r # es) = no_setup_saves (s\<lparr>uart_rx := uart_rx s @ r\<rparr>) es"
| "no_setup_saves s (Iterate # es) =
     (if setup_succeeds s then False else no_setup_saves (main_iteration s) es)"

definition erased_state :: "control \<Rightarrow> bool" where
  "erased_state s = (g_storedPassword s = zeros @ [0] \<and> eeprom s 12 = 0xFFFFFFFF)"

text \<open>Concrete states for the examples: an erased EEPROM, a given credential in memory.\<close>

definition fresh_eeprom :: eeprom_mem where
  "fresh_eeprom = (\<lambda>address. 0xFFFFFFFF)"

definition control_with :: "u8 list \<Rightarrow> u8 option list \<Rightarrow> control" where
  "control_with credential rx =
     \<lparr>eeprom = fresh_eeprom, g_storedPassword = credential @ [0], g_autoLockTimeout = 5,
      uart_rx = rx, uart_tx = []\<rparr>"

text \<open>An erase request with the credential \<^verbatim>\<open>"13579"\<close>, and events that follow it.\<close>

definition erase_example :: control where
  "erase_example = control_with [0x31, 0x33, 0x35, 0x37, 0x39]
      (map Some ([CMD_ERASE_EEPROM] @ [0x31, 0x33, 0x35, 0x37, 0x39]))"

definition events_example :: "event list" where
  "events_example =
     [Arrive (map Some ([CMD_SET_TIMEOUT] @ [0x30, 0x30, 0x30, 0x30, 0x30] @ [10])), Iterate,
      Arrive (map Some ([CMD_SETUP_PASSWORD] @ [0x31, 0x32, 0x33, 0x34, 0x35]
                         @ [0x31, 0x32, 0x33, 0x34, 0x36])), Iterate,
      Arrive (map Some ([CMD_OPEN_DOOR] @ [0x30, 0x30, 0x30, 0x30, 0x30])), Iterate]"

text \<open>
  A concrete HMI state: the keys to come, the responses to come, a potentiometer that
  reads 17.
\<close>

definition hmi_with :: "u8 list \<Rightarrow> u8 option list \<Rightarrow> hmi" where
  "hmi_with keys rx =
     \<lparr>keypad = keys, pot = (\<lambda>k. 17), pot_reads = 0, hmi_rx = rx, hmi_tx = [],
      lcd_countdown = []\<rparr>"

text \<open>The keys that \<^verbatim>\<open>GetPassword\<close> keeps.\<close>

definition is_digit :: "u8 \<Rightarrow> bool" where
  "is_digit key = (0x30 \<le> key \<and> key \<le> 0x39)"


text \<open>The bytes that one iteration of the main loop sends.\<close>

definition sent :: "control \<Rightarrow> u8 list" where
  "sent s = drop (length (uart_tx s)) (uart_tx (main_iteration s))"

text \<open>
  Channel contents with a NUL byte in the password: a Setup-password that sends
  \<^verbatim>\<open>31 00 32 33 34\<close> twice, a Set-timeout with the password \<^verbatim>\<open>31 00 39 39 39\<close> and the
  timeout byte 200, and a Setup-password with the two different passwords
  \<^verbatim>\<open>31 00 32 33 34\<close> and \<^verbatim>\<open>31 00 35 36 37\<close>.
\<close>

definition nul_setup :: "u8 option list" where
  "nul_setup = map Some ([CMD_SETUP_PASSWORD] @ [0x31, 0, 0x32, 0x33, 0x34] @ [0x31, 0, 0x32, 0x33, 0x34])"

definition nul_set_timeout :: "u8 option list" where
  "nul_set_timeout = map Some ([CMD_SET_TIMEOUT] @ [0x31, 0, 0x39, 0x39, 0x39] @ [200])"

definition nul_setup_unequal :: "u8 option list" where
  "nul_setup_unequal =
     map Some ([CMD_SETUP_PASSWORD] @ [0x31, 0, 0x32, 0x33, 0x34] @ [0x31, 0, 0x35, 0x36, 0x37])"


section \<open>Lemmas\<close>

subsection \<open>Channel\<close>

lemma ReceivePassword_loop_eq:
  "ReceivePassword_loop n s = (payload n (uart_rx s), s\<lparr>uart_rx := drop n (uart_rx s)\<rparr>)"
proof (induction n arbitrary: s)
  case 0
  then show ?case by (simp add: payload_def)
next
  case (Suc n)
  show ?case
  proof (cases "uart_rx s")
    case Nil
    then show ?thesis by (simp add: Suc UART5_WaitChar_def payload_def replicate_append_same)
  next
    case (Cons e r)
    then show ?thesis
      by (cases e) (simp_all add: Suc UART5_WaitChar_def payload_def slot_char_def)
  qed
qed

lemma ReceivePassword_eq:
  "ReceivePassword s = (payload 5 (uart_rx s) @ [0], s\<lparr>uart_rx := drop 5 (uart_rx s)\<rparr>)"
  by (simp add: ReceivePassword_def ReceivePassword_loop_eq PASSWORD_LENGTH_def)

lemma payload_bytes: "length C = n \<Longrightarrow> payload n (map Some C @ rest) = C"
  by (simp add: payload_def slot_char_def comp_def)

lemma length_payload: "length (payload n rx) = n"
  by (simp add: payload_def)

lemma ReceivePassword_bytes:
  "length C = 5 \<Longrightarrow> uart_rx s = map Some C @ rest \<Longrightarrow>
   ReceivePassword s = (C @ [0], s\<lparr>uart_rx := rest\<rparr>)"
  by (simp add: ReceivePassword_eq payload_bytes)

lemma main_iteration_cmd:
  "uart_rx s = Some c # r \<Longrightarrow> main_iteration s = dispatch c (s\<lparr>uart_rx := r\<rparr>)"
  by (simp add: main_iteration_def)

subsection \<open>C strings\<close>

lemma strcmp_same: "strcmp xs xs = 0"
  by (induction xs) auto

subsection \<open>EEPROM\<close>

lemma EEPROM_ReadWord_valid:
  "block < 32 \<Longrightarrow> offset < 16 \<Longrightarrow>
   EEPROM_ReadWord block offset data mem = (EEPROM_SUCCESS, mem (CalculateAddress block offset))"
  by (simp add: EEPROM_ReadWord_def EEPROMRead_def eeprom_consts not_le)

lemma EEPROM_WriteWord_valid:
  "block < 32 \<Longrightarrow> offset < 16 \<Longrightarrow>
   EEPROM_WriteWord block offset data mem =
     (EEPROM_SUCCESS, mem(CalculateAddress block offset := data))"
  by (simp add: EEPROM_WriteWord_def EEPROMProgram_def eeprom_consts not_le)

lemma addresses:
  "CalculateAddress 0 0 = 0" "CalculateAddress 0 1 = 4"
  "CalculateAddress 0 2 = 8" "CalculateAddress 0 3 = 12"
  by (simp_all add: CalculateAddress_def eeprom_consts)

subsection \<open>Credential words\<close>

lemma mask_FF: "(0xFF :: u32) = mask 8"
  by (simp add: mask_eq_exp_minus_1)

lemma byte_roundtrip:
  fixes a b c d :: u8
  defines "w \<equiv> (push_bit 24 (ucast a) OR push_bit 16 (ucast b) OR push_bit 8 (ucast c) OR
                  ucast d :: u32)"
  shows "ucast (drop_bit 24 w AND 0xFF) = a" "ucast (drop_bit 16 w AND 0xFF) = b"
    "ucast (drop_bit 8 w AND 0xFF) = c" "ucast (w AND 0xFF) = d"
  unfolding w_def mask_FF
  by (rule bit_word_eqI; auto simp: bit_simps dest: bit_imp_le_length)+

lemma byte_roundtrip_high:
  fixes e :: u8
  shows "ucast (drop_bit 24 (push_bit 24 (ucast e) :: u32) AND 0xFF) = e"
  unfolding mask_FF
  by (rule bit_word_eqI; auto simp: bit_simps dest: bit_imp_le_length)

lemma EncodeCredential_bytes:
  "EncodeCredential (a # b # c # d # e # xs) =
     (push_bit 24 (ucast a) OR push_bit 16 (ucast b) OR push_bit 8 (ucast c) OR ucast d,
      push_bit 24 (ucast e))"
  unfolding EncodeCredential_def
  by (simp only: nth_Cons_0 nth_Cons_numeral nth_Cons_Suc One_nat_def numeral_eq_Suc
        pred_numeral_simps BitM.simps prod.inject simp_thms)

lemma Decode_Encode:
  "DecodeCredential (fst (EncodeCredential (a # b # c # d # e # xs)))
     (snd (EncodeCredential (a # b # c # d # e # xs))) = [a, b, c, d, e]"
  unfolding EncodeCredential_bytes DecodeCredential_def fst_conv snd_conv
  by (simp only: byte_roundtrip byte_roundtrip_high)

lemma five_bytes: "length C = 5 \<Longrightarrow> \<exists>a b c d e. C = [a, b, c, d, e]"
  by (auto simp: length_Suc_conv eval_nat_numeral)

subsection \<open>Door sequence\<close>

lemma PerformDoorOperation_loop_eq:
  "PerformDoorOperation_loop i s = s\<lparr>uart_tx := uart_tx s @ countdown_bytes i\<rparr>"
proof (induction "unat i" arbitrary: i s)
  case 0
  then have "i = 0" by (simp add: unat_eq_0)
  then show ?case by (simp add: PerformDoorOperation_loop.simps countdown_bytes_def)
next
  case (Suc n)
  then have nz: "i \<noteq> 0" by auto
  then have pos: "0 < i" by (simp add: word_greater_zero_iff)
  have u: "unat (i - 1) = n" using Suc.hyps(2) nz by (simp add: unat_minus_one)
  have i: "of_nat (Suc n) = i" using Suc.hyps(2) by (metis of_nat_unat ucast_id)
  show ?case
    using Suc.hyps(1)[OF u[symmetric], of "SendCountdown i s"] pos u Suc.hyps(2)[symmetric] i
    by (subst PerformDoorOperation_loop.simps)
       (simp add: SendCountdown_def UART5_SendChar_def countdown_bytes_def)
qed

lemma PerformDoorOperation_eq:
  "PerformDoorOperation s =
   s\<lparr>uart_tx := uart_tx s @ [RESP_DOOR_UNLOCKING, RESP_COUNTDOWN_START] @
        countdown_bytes (g_autoLockTimeout s) @ [RESP_DOOR_LOCKING, RESP_DOOR_LOCKED]\<rparr>"
  by (simp add: PerformDoorOperation_def PerformDoorOperation_loop_eq UART5_SendChar_def Let_def)

lemma countdown_bytes_5: "countdown_bytes 5 = [5, 4, 3, 2, 1]"
  by (simp add: countdown_bytes_def upt_rec)

subsection \<open>Strings, payloads and the handlers in closed form\<close>

lemma payload_5:
  "payload 5 (a # b # c # d # e # rx) =
     [slot_char a, slot_char b, slot_char c, slot_char d, slot_char e]"
  by (simp add: payload_def)

lemma slot_char_simps: "slot_char (Some c) = c" "slot_char None = 0x30"
  by (simp_all add: slot_char_def)

lemma uint_diff_0: "(uint a - uint b = 0) = (a = b)"
proof -
  have "(uint a - uint b = 0) = (uint a = uint b)" by simp
  also have "\<dots> = (a = b)" by (rule word_uint_eq_iff[symmetric])
  finally show ?thesis .
qed

lemma strcmp_Cons:
  "(strcmp (a # as) (b # bs) = 0) = (a = b \<and> (a = 0 \<or> strcmp as bs = 0))"
  using uint_diff_0[of a b] by (cases "a = b") simp_all

lemma strcmp_terminated_iff:
  "0 \<notin> set p \<Longrightarrow> 0 \<notin> set q \<Longrightarrow> (strcmp (p @ [0]) (q @ [0]) = 0) = (p = q)"
proof (induction p arbitrary: q)
  case Nil
  then show ?case by (cases q) (auto simp: strcmp_Cons simp del: strcmp.simps(1))
next
  case (Cons a p)
  then show ?case by (cases q) (auto simp: strcmp_Cons simp del: strcmp.simps(1))
qed

lemma strcpy_terminated:
  "0 \<notin> set p \<Longrightarrow> length d = Suc (length p) \<Longrightarrow> strcpy d (p @ [0]) = p @ [0]"
proof (induction p arbitrary: d)
  case Nil
  then show ?case by (cases d) auto
next
  case (Cons a p)
  then show ?case by (cases d) auto
qed

lemma dispatch_simps:
  "dispatch CMD_CHECK_PASSWORD s = HandleCheckPassword s"
  "dispatch CMD_SETUP_PASSWORD s = HandleSetupPassword s"
  "dispatch CMD_CHANGE_PASSWORD s = HandleChangePassword s"
  "dispatch CMD_SET_TIMEOUT s = HandleSetTimeout s"
  "dispatch CMD_OPEN_DOOR s = HandleOpenDoor s"
  "dispatch CMD_ERASE_EEPROM s = HandleEraseEEPROM s"
  "dispatch CMD_TRIGGER_LOCKOUT s = HandleTriggerLockout s"
  by (simp_all add: dispatch_def cmd_defs)

lemma VerifyPassword_frame [simp]:
  "VerifyPassword p (s\<lparr>uart_rx := r\<rparr>) = VerifyPassword p s"
  "VerifyPassword p (s\<lparr>uart_tx := x\<rparr>) = VerifyPassword p s"
  by (simp_all add: VerifyPassword_def)

lemma strcpy_zeros: "length d = 6 \<Longrightarrow> strcpy d [0x30, 0x30, 0x30, 0x30, 0x30, 0] = zeros @ [0]"
  using strcpy_terminated[of zeros d] by (simp add: zeros_def)

lemma EEPROM_MassErase_eq: "EEPROM_MassErase mem = (EEPROM_SUCCESS, \<lambda>address. 0xFFFFFFFF)"
  by (simp add: EEPROM_MassErase_def EEPROMMassErase_def)

lemma HandleEraseEEPROM_eq:
  "HandleEraseEEPROM s =
     (if VerifyPassword (payload 5 (uart_rx s) @ [0]) s
      then s\<lparr>eeprom := (\<lambda>address. 0xFFFFFFFF),
             g_storedPassword := strcpy (g_storedPassword s) [0x30, 0x30, 0x30, 0x30, 0x30, 0],
             g_autoLockTimeout := DEFAULT_TIMEOUT,
             uart_rx := drop 5 (uart_rx s), uart_tx := uart_tx s @ [RESP_EEPROM_ERASED]\<rparr>
      else s\<lparr>uart_rx := drop 5 (uart_rx s), uart_tx := uart_tx s @ [RESP_PASSWORD_MISMATCH]\<rparr>)"
  by (simp add: HandleEraseEEPROM_def ReceivePassword_eq EEPROM_MassErase_eq UART5_SendChar_def)

lemma HandleChangePassword_eq:
  "HandleChangePassword s =
     s\<lparr>uart_rx := drop 5 (uart_rx s),
       uart_tx := uart_tx s @ [if VerifyPassword (payload 5 (uart_rx s) @ [0]) s
                               then RESP_PASSWORD_MATCH else RESP_PASSWORD_MISMATCH]\<rparr>"
  by (simp add: HandleChangePassword_def ReceivePassword_eq UART5_SendChar_def)

lemma HandleOpenDoor_eq:
  "HandleOpenDoor s =
     (if VerifyPassword (payload 5 (uart_rx s) @ [0]) s
      then s\<lparr>uart_rx := drop 5 (uart_rx s),
             uart_tx := uart_tx s @ [RESP_PASSWORD_MATCH, RESP_DOOR_UNLOCKING, RESP_COUNTDOWN_START] @
               countdown_bytes (g_autoLockTimeout s) @ [RESP_DOOR_LOCKING, RESP_DOOR_LOCKED]\<rparr>
      else s\<lparr>uart_rx := drop 5 (uart_rx s), uart_tx := uart_tx s @ [RESP_PASSWORD_MISMATCH]\<rparr>)"
  by (simp add: HandleOpenDoor_def ReceivePassword_eq PerformDoorOperation_eq UART5_SendChar_def)

lemma UART5_WaitChar_eq:
  "UART5_WaitChar dflt s =
     (case uart_rx s of Some c # r \<Rightarrow> c | _ \<Rightarrow> dflt, s\<lparr>uart_rx := drop 1 (uart_rx s)\<rparr>)"
  by (simp add: UART5_WaitChar_def split: list.splits option.splits)

lemma HandleSetTimeout_eq:
  "HandleSetTimeout s =
     (let t = (case drop 5 (uart_rx s) of Some c # r \<Rightarrow> c | _ \<Rightarrow> DEFAULT_TIMEOUT) in
      if VerifyPassword (payload 5 (uart_rx s) @ [0]) s
      then s\<lparr>eeprom := (eeprom s)(8 := ucast t), g_autoLockTimeout := t,
             uart_rx := drop 6 (uart_rx s), uart_tx := uart_tx s @ [RESP_TIMEOUT_SAVED]\<rparr>
      else s\<lparr>uart_rx := drop 6 (uart_rx s), uart_tx := uart_tx s @ [RESP_PASSWORD_MISMATCH]\<rparr>)"
  by (simp add: HandleSetTimeout_def ReceivePassword_eq UART5_WaitChar_eq SaveTimeout_def
        EEPROM_WriteWord_valid layout_defs addresses UART5_SendChar_def Let_def)

lemma HandleSetupPassword_eq:
  "HandleSetupPassword s =
     (if strcmp (payload 5 (uart_rx s) @ [0]) (payload 5 (drop 5 (uart_rx s)) @ [0]) = 0
      then UART5_SendChar RESP_PASSWORD_MATCH
             (SavePassword (payload 5 (uart_rx s) @ [0]) (s\<lparr>uart_rx := drop 10 (uart_rx s)\<rparr>))
      else s\<lparr>uart_rx := drop 10 (uart_rx s), uart_tx := uart_tx s @ [RESP_PASSWORD_MISMATCH]\<rparr>)"
  by (simp add: HandleSetupPassword_def ReceivePassword_eq UART5_SendChar_def)

lemma HandleCheckPassword_eq:
  "HandleCheckPassword s =
     s\<lparr>uart_tx := uart_tx s @ [if eeprom s 12 = PASSWORD_VALID_MARKER
                               then RESP_PASSWORD_EXISTS else RESP_NO_PASSWORD]\<rparr>"
  by (simp add: HandleCheckPassword_def IsPasswordValid_def EEPROM_ReadWord_valid layout_defs
        addresses UART5_SendChar_def)

lemmas handler_eqs =
  HandleCheckPassword_eq HandleSetupPassword_eq HandleChangePassword_eq HandleSetTimeout_eq
  HandleOpenDoor_eq HandleEraseEEPROM_eq

subsection \<open>The state after an erase\<close>

lemma dispatch_erased_state:
  assumes "erased_state s"
    and "\<not> (c = CMD_SETUP_PASSWORD \<and>
            strcmp (payload 5 (uart_rx s) @ [0]) (payload 5 (drop 5 (uart_rx s)) @ [0]) = 0)"
  shows "erased_state (dispatch c s)"
proof -
  have len: "length (g_storedPassword s) = 6"
    using assms(1) by (simp add: erased_state_def zeros_def)
  show ?thesis
    using assms strcpy_zeros[OF len]
    by (auto simp: dispatch_def handler_eqs HandleTriggerLockout_def TriggerLockout_def
          UART5_SendChar_def erased_state_def Let_def)
qed

lemma main_iteration_erased_state:
  "erased_state s \<Longrightarrow> \<not> setup_succeeds s \<Longrightarrow> erased_state (main_iteration s)"
proof (cases "uart_rx s")
  case Nil
  assume "erased_state s"
  with Nil show ?thesis by (simp add: main_iteration_def)
next
  case (Cons e r)
  assume a: "erased_state s" "\<not> setup_succeeds s"
  show ?thesis
  proof (cases e)
    case None
    with Cons a show ?thesis by (simp add: main_iteration_def erased_state_def)
  next
    case (Some c)
    have "erased_state (s\<lparr>uart_rx := r\<rparr>)" using a(1) by (simp add: erased_state_def)
    moreover have "\<not> (c = CMD_SETUP_PASSWORD \<and>
        strcmp (payload 5 (uart_rx (s\<lparr>uart_rx := r\<rparr>)) @ [0])
               (payload 5 (drop 5 (uart_rx (s\<lparr>uart_rx := r\<rparr>))) @ [0]) = 0)"
      using a(2) Cons Some by (simp add: setup_succeeds_def)
    ultimately have "erased_state (dispatch c (s\<lparr>uart_rx := r\<rparr>))"
      by (rule dispatch_erased_state)
    with Cons Some show ?thesis by (simp add: main_iteration_def)
  qed
qed

lemma run_erased_state:
  "erased_state s \<Longrightarrow> no_setup_saves s es \<Longrightarrow> erased_state (run s es)"
proof (induction s es rule: run.induct)
  case (1 s)
  then show ?case by simp
next
  case (2 s r es)
  then show ?case by (simp add: erased_state_def)
next
  case (3 s es)
  then show ?case by (simp add: main_iteration_erased_state split: if_splits)
qed

lemma erase_erased_state:
  assumes "length (g_storedPassword s) = 6"
    and "uart_rx s = Some CMD_ERASE_EEPROM # r"
    and "VerifyPassword (payload 5 r @ [0]) s"
  shows "erased_state (main_iteration s)"
  using assms(1,3)
  by (simp add: main_iteration_cmd[OF assms(2)] dispatch_simps HandleEraseEEPROM_eq strcpy_zeros
        erased_state_def)

lemma VerifyPassword_zeros: "g_storedPassword s = zeros @ [0] \<Longrightarrow> VerifyPassword (zeros @ [0]) s"
  by (simp add: VerifyPassword_def strcmp_same)

subsection \<open>Countdown\<close>

lemma unat_of_nat_u8: "k < 256 \<Longrightarrow> unat (of_nat k :: u8) = k"
  by (simp add: unsigned_of_nat take_bit_nat_eq_self)

lemma countdown_bytes_split:
  assumes "20 \<le> unat t"
  shows "countdown_bytes t = map of_nat (rev [21..<Suc (unat t)]) @ 20 # countdown_bytes 19"
proof -
  obtain k where k: "Suc (unat t) = 20 + k"
    using assms by (metis le_SucI le_Suc_ex)
  have "[1..<Suc (unat t)] = [1..<20] @ [20..<Suc (unat t)]"
    unfolding k by (rule upt_add_eq_append) simp
  also have "[20..<Suc (unat t)] = 20 # [21..<Suc (unat t)]"
    using assms by (simp add: upt_conv_Cons)
  finally show ?thesis
    by (simp add: countdown_bytes_def)
qed

lemma countdown_loop_skip:
  "\<forall>b\<in>set pre. b \<noteq> RESP_DOOR_LOCKING \<and> b \<le> 30 \<Longrightarrow>
   countdown_loop (map Some pre @ r) lcd = countdown_loop r (lcd @ pre)"
  by (induction pre arbitrary: lcd) auto

lemma countdown_bytes_19:
  "countdown_bytes 19 = [19, 18, 17, 16, 15, 14, 13, 12, 11, 10, 9, 8, 7, 6, 5, 4, 3, 2, 1]"
  by (simp add: countdown_bytes_def upt_rec)

lemma high_countdown_bytes:
  assumes "unat t \<le> 30"
  shows "\<forall>b\<in>set (map of_nat (rev [21..<Suc (unat t)]) :: u8 list). b \<noteq> RESP_DOOR_LOCKING \<and> b \<le> 30"
proof
  fix b :: u8
  assume "b \<in> set (map of_nat (rev [21..<Suc (unat t)]))"
  then obtain k where k: "b = of_nat k" "21 \<le> k" "k \<le> 30"
    using assms by auto
  then have "unat b = k" by (simp add: unat_of_nat_u8)
  with k show "b \<noteq> RESP_DOOR_LOCKING \<and> b \<le> 30"
    by (auto simp: RESP_DOOR_LOCKING_def word_le_nat_alt)
qed

lemma countdown_bytes_25:
  "countdown_bytes 25 = [25, 24, 23, 22, 21, 20, 19, 18, 17, 16, 15, 14, 13, 12, 11, 10, 9, 8,
                         7, 6, 5, 4, 3, 2, 1]"
  by (simp add: countdown_bytes_def upt_rec)

subsection \<open>HMI dialogs\<close>

lemma HMI_send_foldl:
  "foldl (\<lambda>h' i. HMI_SendChar (f i) h') h is = h\<lparr>hmi_tx := hmi_tx h @ map f is\<rparr>"
  by (induction "is" arbitrary: h) (simp_all add: HMI_SendChar_def)

lemma SendPassword_eq:
  "length p = 5 \<Longrightarrow> SendPassword (p @ [0]) h = h\<lparr>hmi_tx := hmi_tx h @ p\<rparr>"
proof -
  assume len: "length p = 5"
  have "map (\<lambda>i. (p @ [0]) ! i) [0..<5] = p"
    using len by (auto simp: list_eq_iff_nth_eq nth_append)
  then show ?thesis
    by (simp add: SendPassword_def PASSWORD_LENGTH_def HMI_send_foldl)
qed



lemma WaitForResponse_byte:
  "hmi_rx h = Some c # r \<Longrightarrow> WaitForResponse h = (c, h\<lparr>hmi_rx := r\<rparr>)"
  by (simp add: WaitForResponse_def)








lemma GetPassword_loop_Some:
  "GetPassword_loop acc ks = Some (p, ks') \<Longrightarrow> length acc \<le> 5 \<Longrightarrow> \<forall>c\<in>set acc. is_digit c \<Longrightarrow>
   length p = 5 \<and> (\<forall>c\<in>set p. is_digit c)"
proof (induction ks arbitrary: acc)
  case Nil
  then show ?case by (auto simp: PASSWORD_LENGTH_def split: if_splits)
next
  case (Cons key ks)
  show ?case
  proof (cases "length acc < 5")
    case False
    with Cons.prems show ?thesis by (auto simp: PASSWORD_LENGTH_def)
  next
    case True
    show ?thesis
    proof (cases "is_digit key")
      case d: True
      then have "GetPassword_loop (acc @ [key]) ks = Some (p, ks')"
        using Cons.prems(1) True by (simp add: PASSWORD_LENGTH_def is_digit_def)
      from Cons.IH[OF this] True d Cons.prems(3) show ?thesis
        by auto
    next
      case False
      then have "GetPassword_loop acc ks = Some (p, ks')"
        using Cons.prems(1) True by (auto simp: PASSWORD_LENGTH_def is_digit_def)
      then show ?thesis
        using Cons.prems(2,3) by (rule Cons.IH)
    qed
  qed
qed

lemma GetPassword_Some:
  assumes "GetPassword h = Some (password, h1)"
  shows "\<exists>p ks. password = p @ [0] \<and> length p = 5 \<and> (\<forall>c\<in>set p. is_digit c)
           \<and> h1 = h\<lparr>keypad := ks\<rparr>"
proof -
  obtain p ks where l: "GetPassword_loop [] (keypad h) = Some (p, ks)"
    and r: "password = p @ [0]" "h1 = h\<lparr>keypad := ks\<rparr>"
    using assms by (auto simp: GetPassword_def split: option.splits)
  from GetPassword_loop_Some[OF l] r show ?thesis by auto
qed


lemma set_timeout_single_attempt:
  assumes "HMI_HandleSetTimeout h = Some h'"
  shows "\<exists>t p. length p = 5 \<and> (\<forall>c\<in>set p. is_digit c)
      \<and> hmi_tx h' = hmi_tx h @ CMD_SET_TIMEOUT # p @ [t]
      \<and> hmi_rx h' = tl (hmi_rx h)"
proof -
  obtain t k ks where a: "adjust_loop (pot h) (pot_reads h) (keypad h) = Some (t, k, ks)"
    using assms by (auto simp: HMI_HandleSetTimeout_def split: option.splits)
  obtain password h1 where g: "GetPassword (h\<lparr>pot_reads := k, keypad := ks\<rparr>) = Some (password, h1)"
    using assms a by (auto simp: HMI_HandleSetTimeout_def split: option.splits)
  obtain p ks' where p: "password = p @ [0]" "length p = 5" "\<forall>c\<in>set p. is_digit c"
    "h1 = h\<lparr>pot_reads := k, keypad := ks'\<rparr>"
    using GetPassword_Some[OF g] by auto
  have "h' = snd (WaitForResponse (HMI_SendChar t (SendPassword password
                (HMI_SendChar CMD_SET_TIMEOUT h1))))"
    using assms a g by (auto simp: HMI_HandleSetTimeout_def split: prod.splits)
  then have "hmi_tx h' = hmi_tx h @ CMD_SET_TIMEOUT # p @ [t] \<and> hmi_rx h' = tl (hmi_rx h)"
    by (simp add: p SendPassword_eq HMI_SendChar_def WaitForResponse_def
          split: list.splits option.splits)
  with p show ?thesis by blast
qed

subsection \<open>What holds of the timeout and of the bytes sent\<close>

text \<open>
  The timeout in memory changes only to the default or to the byte of a Set-timeout;
  an iteration of the main loop sends nothing, one response code, or the door
  sequence with the countdown from the timeout in memory; the value of
  \<^verbatim>\<open>RESP_TIMEOUT\<close> is sent only when that timeout is 0xFF.
\<close>

lemma SavePassword_frame:
  "uart_tx (SavePassword p s) = uart_tx s" "uart_rx (SavePassword p s) = uart_rx s"
  "g_autoLockTimeout (SavePassword p s) = g_autoLockTimeout s"
  by (simp_all add: SavePassword_def MarkPasswordAsValid_def Let_def split: prod.splits)

lemma countdown_bytes_range:
  assumes "b \<in> set (countdown_bytes t)"
  shows "1 \<le> b \<and> b \<le> t"
proof -
  obtain k where k: "b = of_nat k" "1 \<le> k" "k \<le> unat t"
    using assms by (auto simp: countdown_bytes_def)
  have "unat t < 256" using unsigned_less[of t] by simp
  then have "unat b = k" using k by (simp add: unat_of_nat_u8)
  with k show ?thesis by (simp add: word_le_nat_alt)
qed

lemma sent_cases:
  "sent s = [] \<or> (\<exists>c. 0x10 \<le> c \<and> c \<le> 0x1A \<and> sent s = [c])
   \<or> sent s = [RESP_PASSWORD_MATCH, RESP_DOOR_UNLOCKING, RESP_COUNTDOWN_START] @
         countdown_bytes (g_autoLockTimeout s) @ [RESP_DOOR_LOCKING, RESP_DOOR_LOCKED]"
proof (cases "uart_rx s")
  case Nil
  then show ?thesis by (simp add: sent_def main_iteration_def)
next
  case (Cons e r)
  show ?thesis
  proof (cases e)
    case None
    with Cons show ?thesis by (simp add: sent_def main_iteration_def)
  next
    case (Some c)
    with Cons show ?thesis
      by (simp add: sent_def main_iteration_def dispatch_def handler_eqs HandleTriggerLockout_def
            TriggerLockout_def UART5_SendChar_def SavePassword_frame resp_defs Let_def)
  qed
qed

lemma sentinel_only_from_timeout:
  assumes "g_autoLockTimeout s \<noteq> 0xFF"
  shows "RESP_TIMEOUT \<notin> set (sent s)"
proof
  assume a: "RESP_TIMEOUT \<in> set (sent s)"
  have "RESP_TIMEOUT \<notin> set (countdown_bytes (g_autoLockTimeout s))"
  proof
    assume "RESP_TIMEOUT \<in> set (countdown_bytes (g_autoLockTimeout s))"
    then have "RESP_TIMEOUT \<le> g_autoLockTimeout s"
      using countdown_bytes_range by blast
    then have "255 \<le> unat (g_autoLockTimeout s)"
      by (simp add: RESP_TIMEOUT_def word_le_nat_alt)
    moreover have "unat (g_autoLockTimeout s) < 256"
      using unsigned_less[of "g_autoLockTimeout s"] by simp
    ultimately have "unat (g_autoLockTimeout s) = unat (0xFF :: u8)"
      by simp
    then show False
      using assms by (simp only: word_unat_eq_iff[symmetric])
  qed
  with a sent_cases[of s] show False
    by (auto simp: resp_defs)
qed

lemma timeout_changes:
  "g_autoLockTimeout (main_iteration s) = g_autoLockTimeout s
   \<or> g_autoLockTimeout (main_iteration s) = DEFAULT_TIMEOUT
   \<or> (\<exists>r c r'. uart_rx s = Some CMD_SET_TIMEOUT # r \<and> drop 5 r = Some c # r'
         \<and> g_autoLockTimeout (main_iteration s) = c)"
proof (cases "uart_rx s")
  case Nil
  then show ?thesis by (simp add: main_iteration_def)
next
  case (Cons e r)
  show ?thesis
  proof (cases e)
    case None
    with Cons show ?thesis by (simp add: main_iteration_def)
  next
    case (Some c)
    with Cons show ?thesis
      by (auto simp: main_iteration_def dispatch_def handler_eqs HandleTriggerLockout_def
            TriggerLockout_def UART5_SendChar_def SavePassword_frame Let_def
            split: list.splits option.splits)
  qed
qed

subsection \<open>What holds of the password comparisons\<close>

text \<open>
  \<^verbatim>\<open>strcmp\<close> agrees with the equality of two 5-byte passwords when the stored one holds
  no NUL byte. A Set-timeout that \<^verbatim>\<open>VerifyPassword\<close> refuses takes its timeout byte and
  changes nothing; a Setup-password with two NUL-free payloads saves exactly when
  they are equal.
\<close>

lemma strcmp_without_nul:
  "length p = length c \<Longrightarrow> 0 \<notin> set c \<Longrightarrow> (strcmp (p @ [0]) (c @ [0]) = 0) = (p = c)"
  by (induction p c rule: list_induct2) (auto simp: strcmp_Cons simp del: strcmp.simps(1))

lemma VerifyPassword_without_nul:
  "g_storedPassword s = C @ [0] \<Longrightarrow> 0 \<notin> set C \<Longrightarrow> length P = length C \<Longrightarrow>
   VerifyPassword (P @ [0]) s = (P = C)"
  by (simp add: VerifyPassword_def strcmp_without_nul)

lemma set_timeout_refused:
  assumes "length P = 5"
    and "\<not> VerifyPassword (P @ [0]) s"
    and "uart_rx s = Some CMD_SET_TIMEOUT # map Some P @ Some t # rest"
  shows "uart_rx (main_iteration s) = rest
         \<and> uart_tx (main_iteration s) = uart_tx s @ [RESP_PASSWORD_MISMATCH]
         \<and> eeprom (main_iteration s) = eeprom s
         \<and> g_autoLockTimeout (main_iteration s) = g_autoLockTimeout s
         \<and> g_storedPassword (main_iteration s) = g_storedPassword s"
proof -
  let ?s0 = "s\<lparr>uart_rx := map Some P @ Some t # rest\<rparr>"
  have rp: "ReceivePassword ?s0 = (P @ [0], s\<lparr>uart_rx := Some t # rest\<rparr>)"
    using assms(1) by (simp add: ReceivePassword_bytes)
  have w: "UART5_WaitChar DEFAULT_TIMEOUT (s\<lparr>uart_rx := Some t # rest\<rparr>) = (t, s\<lparr>uart_rx := rest\<rparr>)"
    by (simp add: UART5_WaitChar_def)
  have "main_iteration s = HandleSetTimeout ?s0"
    by (simp add: main_iteration_cmd[OF assms(3)] dispatch_simps)
  also have "\<dots> = UART5_SendChar RESP_PASSWORD_MISMATCH (s\<lparr>uart_rx := rest\<rparr>)"
    using assms(2) by (simp add: HandleSetTimeout_def rp w)
  finally show ?thesis
    by (simp add: UART5_SendChar_def)
qed

lemma set_timeout_mismatch_without_nul:
  assumes "g_storedPassword s = C @ [0]" and "0 \<notin> set C" and "length C = 5"
    and "length P = 5" and "P \<noteq> C"
    and "uart_rx s = Some CMD_SET_TIMEOUT # map Some P @ Some t # rest"
  shows "uart_rx (main_iteration s) = rest
         \<and> uart_tx (main_iteration s) = uart_tx s @ [RESP_PASSWORD_MISMATCH]
         \<and> eeprom (main_iteration s) = eeprom s
         \<and> g_autoLockTimeout (main_iteration s) = g_autoLockTimeout s
         \<and> g_storedPassword (main_iteration s) = g_storedPassword s"
proof -
  have "\<not> VerifyPassword (P @ [0]) s"
    using assms(1-5) by (simp add: VerifyPassword_without_nul)
  then show ?thesis
    by (rule set_timeout_refused[OF assms(4) _ assms(6)])
qed

lemma setup_password_without_nul:
  fixes r :: "u8 option list"
  defines "P1 \<equiv> payload 5 r" and "P2 \<equiv> payload 5 (drop 5 r)"
  assumes "uart_rx s = Some CMD_SETUP_PASSWORD # r"
    and "0 \<notin> set P1" and "0 \<notin> set P2"
    and "length (g_storedPassword s) = 6"
  shows "(P1 = P2 \<longrightarrow>
            uart_tx (main_iteration s) = uart_tx s @ [RESP_PASSWORD_MATCH]
            \<and> (eeprom (main_iteration s)
                 (CalculateAddress EEPROM_PASSWORD_BLOCK EEPROM_PASSWORD_OFFSET),
               eeprom (main_iteration s)
                 (CalculateAddress EEPROM_PASSWORD_BLOCK (EEPROM_PASSWORD_OFFSET + 1)))
              = EncodeCredential P1
            \<and> g_storedPassword (LoadPassword (main_iteration s)) = P1 @ [0]
            \<and> IsPasswordValid (main_iteration s)
            \<and> g_storedPassword (main_iteration s) = P1 @ [0])
         \<and> (P1 \<noteq> P2 \<longrightarrow>
            uart_tx (main_iteration s) = uart_tx s @ [RESP_PASSWORD_MISMATCH]
            \<and> eeprom (main_iteration s) = eeprom s
            \<and> g_storedPassword (main_iteration s) = g_storedPassword s
            \<and> g_autoLockTimeout (main_iteration s) = g_autoLockTimeout s)"
proof -
  let ?s2 = "s\<lparr>uart_rx := drop 10 r\<rparr>"
  have len: "length P1 = 5" by (simp add: P1_def length_payload)
  obtain a b c d e where P1: "P1 = [a, b, c, d, e]"
    using five_bytes[OF len] by blast
  have cmp: "(strcmp (P1 @ [0]) (P2 @ [0]) = 0) = (P1 = P2)"
    using assms(4,5) by (rule strcmp_terminated_iff)
  have step: "main_iteration s =
      (if P1 = P2 then UART5_SendChar RESP_PASSWORD_MATCH (SavePassword (P1 @ [0]) ?s2)
       else UART5_SendChar RESP_PASSWORD_MISMATCH ?s2)"
    using cmp
    by (simp add: main_iteration_cmd[OF assms(3)] dispatch_simps HandleSetupPassword_eq
          UART5_SendChar_def P1_def P2_def)
  have E: "EncodeCredential (P1 @ [0]) = EncodeCredential P1"
    unfolding P1 by (simp add: EncodeCredential_bytes)
  have cp: "strcpy (g_storedPassword s) (P1 @ [0]) = P1 @ [0]"
    using len assms(4,6) by (simp add: strcpy_terminated)
  have save: "SavePassword (P1 @ [0]) ?s2 =
      ?s2\<lparr>eeprom := (eeprom s)(0 := fst (EncodeCredential P1), 4 := snd (EncodeCredential P1),
                                 12 := PASSWORD_VALID_MARKER),
           g_storedPassword := P1 @ [0]\<rparr>"
    by (simp add: SavePassword_def E MarkPasswordAsValid_def EEPROM_WriteWord_valid layout_defs
          addresses Let_def cp split: prod.splits)
  have dec: "DecodeCredential (fst (EncodeCredential P1)) (snd (EncodeCredential P1)) = P1"
    unfolding P1 by (rule Decode_Encode)
  let ?m = "UART5_SendChar RESP_PASSWORD_MATCH (SavePassword (P1 @ [0]) ?s2)"
  have m: "uart_tx ?m = uart_tx s @ [RESP_PASSWORD_MATCH]
      \<and> (eeprom ?m 0, eeprom ?m 4) = EncodeCredential P1
      \<and> g_storedPassword (LoadPassword ?m) = P1 @ [0]
      \<and> IsPasswordValid ?m
      \<and> g_storedPassword ?m = P1 @ [0]"
    by (simp add: save UART5_SendChar_def IsPasswordValid_def LoadPassword_def
          EEPROM_ReadWord_valid layout_defs addresses dec)
  show ?thesis
  proof (cases "P1 = P2")
    case True
    then have "main_iteration s = ?m" by (simp add: step)
    with m True show ?thesis by (simp add: layout_defs addresses)
  next
    case False
    then show ?thesis by (simp add: step UART5_SendChar_def)
  qed
qed


subsection \<open>The Set-timeout dialog of the HMI\<close>




section \<open>The claims\<close>

text \<open>
  C1. For every stored credential \<open>C\<close> and the auto-lock timeout 5, the Open-door
  operation invoked with a payload equal to the stored credential emits exactly the
  bytes PasswordMatch, DoorUnlocking, CountdownStart, 5, 4, 3, 2, 1, DoorLocking,
  DoorLocked, in this order and nothing else; it consumes the opcode and the five
  payload bytes.
\<close>

theorem C1_open_door_sequence:
  assumes "length C = 5"
    and "g_storedPassword s = C @ [0]"
    and "g_autoLockTimeout s = 5"
    and "uart_rx s = Some CMD_OPEN_DOOR # map Some C @ rest"
  shows "uart_tx (main_iteration s) =
           uart_tx s @ [RESP_PASSWORD_MATCH, RESP_DOOR_UNLOCKING, RESP_COUNTDOWN_START,
                        5, 4, 3, 2, 1, RESP_DOOR_LOCKING, RESP_DOOR_LOCKED]
         \<and> uart_rx (main_iteration s) = rest"
proof -
  let ?s0 = "s\<lparr>uart_rx := map Some C @ rest\<rparr>"
  have rp: "ReceivePassword ?s0 = (C @ [0], s\<lparr>uart_rx := rest\<rparr>)"
    using assms(1) by (simp add: ReceivePassword_bytes)
  have v: "VerifyPassword (C @ [0]) s"
    by (simp add: VerifyPassword_def assms(2) strcmp_same)
  have "main_iteration s = HandleOpenDoor ?s0"
    by (simp add: main_iteration_cmd[OF assms(4)] dispatch_def cmd_defs)
  also have "\<dots> = PerformDoorOperation (UART5_SendChar RESP_PASSWORD_MATCH (s\<lparr>uart_rx := rest\<rparr>))"
    by (simp add: HandleOpenDoor_def rp v)
  finally show ?thesis
    by (simp add: PerformDoorOperation_eq UART5_SendChar_def assms(3) countdown_bytes_5)
qed

theorem C1_open_door_sequence_witness:
  "length [0x31, 0x33, 0x35, 0x37, 0x39 :: u8] = 5
   \<and> uart_tx (main_iteration
        \<lparr>eeprom = (\<lambda>a. 0), g_storedPassword = [0x31, 0x33, 0x35, 0x37, 0x39, 0],
         g_autoLockTimeout = 5,
         uart_rx = Some CMD_OPEN_DOOR # map Some [0x31, 0x33, 0x35, 0x37, 0x39] @ [],
         uart_tx = []\<rparr>)
     = [0x10, 0x13, 0x1A, 5, 4, 3, 2, 1, 0x14, 0x15]"
  using C1_open_door_sequence [of "[0x31, 0x33, 0x35, 0x37, 0x39]"
      "\<lparr>eeprom = (\<lambda>a. 0), g_storedPassword = [0x31, 0x33, 0x35, 0x37, 0x39, 0],
        g_autoLockTimeout = 5,
        uart_rx = Some CMD_OPEN_DOOR # map Some [0x31, 0x33, 0x35, 0x37, 0x39] @ [],
        uart_tx = []\<rparr>" "[]"]
  by (simp add: resp_defs)

text \<open>
  C2. For every credential \<open>C\<close> of exactly 5 characters, decoding the two storage
  words that encode \<open>C\<close> gives \<open>C\<close> back; through the program: what \<^verbatim>\<open>LoadPassword\<close>
  reads after \<^verbatim>\<open>SavePassword\<close> has written \<open>C\<close> is \<open>C\<close> with its terminator. The digits
  are a special case (they are below 0x80, where the signedness of \<^verbatim>\<open>char\<close> does not
  matter either).
\<close>

theorem C2_credential_roundtrip:
  assumes "length C = 5"
  shows "DecodeCredential (fst (EncodeCredential C)) (snd (EncodeCredential C)) = C
         \<and> g_storedPassword (LoadPassword (SavePassword (C @ [0]) s)) = C @ [0]"
proof -
  obtain a b c d e where C: "C = [a, b, c, d, e]"
    using five_bytes[OF assms] by blast
  have 1: "DecodeCredential (fst (EncodeCredential C)) (snd (EncodeCredential C)) = C"
    unfolding C by (rule Decode_Encode)
  have E: "EncodeCredential (C @ [0]) = EncodeCredential C"
    unfolding C by (simp add: EncodeCredential_bytes)
  have "eeprom (SavePassword (C @ [0]) s) 0 = fst (EncodeCredential C)
      \<and> eeprom (SavePassword (C @ [0]) s) 4 = snd (EncodeCredential C)"
    by (simp add: SavePassword_def E MarkPasswordAsValid_def EEPROM_WriteWord_valid layout_defs
          addresses Let_def split: prod.splits)
  then have 2: "g_storedPassword (LoadPassword (SavePassword (C @ [0]) s)) = C @ [0]"
    using 1 by (simp add: LoadPassword_def EEPROM_ReadWord_valid layout_defs addresses)
  from 1 2 show ?thesis by simp
qed

theorem C2_credential_roundtrip_witness:
  "length [0x31, 0x33, 0x35, 0x37, 0x39 :: u8] = 5
   \<and> EncodeCredential [0x31, 0x33, 0x35, 0x37, 0x39] = (0x31333537, 0x39000000)
   \<and> DecodeCredential 0x31333537 0x39000000 = [0x31, 0x33, 0x35, 0x37, 0x39]"
proof -
  have e: "EncodeCredential [0x31, 0x33, 0x35, 0x37, 0x39] = (0x31333537, 0x39000000)"
    by (simp add: EncodeCredential_def)
  show ?thesis
    using C2_credential_roundtrip [of "[0x31, 0x33, 0x35, 0x37, 0x39]"]
    by (simp add: e)
qed

text \<open>
  C3 (the code at a failing input). \<^verbatim>\<open>HandleSetTimeout\<close> passes the received timeout
  byte to \<^verbatim>\<open>SaveTimeout\<close> without the range check that \<^verbatim>\<open>LoadTimeout\<close> makes. From an
  erased EEPROM: after Setup-password with \<^verbatim>\<open>"13579"\<close> twice and Set-timeout with
  \<^verbatim>\<open>"13579"\<close> and the byte 200, the timeout in memory is 200, outside [5,30], and the
  countdown of the next Open-door starts with the byte 200, outside [1,30].
\<close>

theorem C3_set_timeout_not_validated:
  "g_autoLockTimeout (Control_main 2 fresh_eeprom
      (map Some ([CMD_SETUP_PASSWORD] @ [0x31, 0x33, 0x35, 0x37, 0x39] @ [0x31, 0x33, 0x35, 0x37, 0x39]
               @ [CMD_SET_TIMEOUT] @ [0x31, 0x33, 0x35, 0x37, 0x39] @ [200]))) = 200
   \<and> take 6 (uart_tx (Control_main 3 fresh_eeprom
      (map Some ([CMD_SETUP_PASSWORD] @ [0x31, 0x33, 0x35, 0x37, 0x39] @ [0x31, 0x33, 0x35, 0x37, 0x39]
               @ [CMD_SET_TIMEOUT] @ [0x31, 0x33, 0x35, 0x37, 0x39] @ [200]
               @ [CMD_OPEN_DOOR] @ [0x31, 0x33, 0x35, 0x37, 0x39]))))
     = [RESP_PASSWORD_MATCH, RESP_TIMEOUT_SAVED, RESP_PASSWORD_MATCH, RESP_DOOR_UNLOCKING,
        RESP_COUNTDOWN_START, 200]"
  by code_simp

text \<open>
  C4. For every 32-bit timeout word \<open>T\<close> stored at the timeout offset, the timeout
  that the boot-time load produces is the decoding of \<open>T\<close> and lies in [5,30]; when
  the low byte of \<open>T\<close> is outside [5,30] it is exactly 5.
\<close>

theorem C4_timeout_clamped_on_load:
  assumes "eeprom s (CalculateAddress EEPROM_TIMEOUT_BLOCK EEPROM_TIMEOUT_OFFSET) = T"
  shows "g_autoLockTimeout (LoadTimeout s) = DecodeTimeout T
         \<and> 5 \<le> DecodeTimeout T \<and> DecodeTimeout T \<le> 30
         \<and> (unat (T AND 0xFF) \<notin> {5..30} \<longrightarrow> DecodeTimeout T = 5)"
proof -
  have load: "g_autoLockTimeout (LoadTimeout s) = DecodeTimeout T"
    using assms by (simp add: LoadTimeout_def EEPROM_ReadWord_valid layout_defs)
  have range: "5 \<le> DecodeTimeout T \<and> DecodeTimeout T \<le> 30"
    by (auto simp: DecodeTimeout_def DEFAULT_TIMEOUT_def Let_def not_less)
  have low: "unat (ucast (T AND 0xFF) :: u8) = unat (T AND 0xFF)"
    unfolding mask_FF take_bit_eq_mask[symmetric]
    by (simp add: unsigned_ucast_eq unsigned_take_bit_eq)
  have "DecodeTimeout T = 5" if "unat (T AND 0xFF) \<notin> {5..30}"
  proof -
    have "(ucast (T AND 0xFF) :: u8) < 5 \<or> (ucast (T AND 0xFF) :: u8) > 30"
      using that low by (auto simp: word_less_nat_alt not_le)
    then show ?thesis by (auto simp: DecodeTimeout_def DEFAULT_TIMEOUT_def Let_def)
  qed
  with load range show ?thesis by blast
qed

theorem C4_timeout_clamped_on_load_witness:
  "g_autoLockTimeout (LoadTimeout
      \<lparr>eeprom = (\<lambda>a. 0xFFFFFFFF), g_storedPassword = [], g_autoLockTimeout = 0,
       uart_rx = [], uart_tx = []\<rparr>) = 5
   \<and> unat ((0xFFFFFFFF :: u32) AND 0xFF) \<notin> {5..30}
   \<and> DecodeTimeout 0xFFFFFFFF = 5"
  using C4_timeout_clamped_on_load [of
      "\<lparr>eeprom = (\<lambda>a. 0xFFFFFFFF), g_storedPassword = [], g_autoLockTimeout = 0,
        uart_rx = [], uart_tx = []\<rparr>" "0xFFFFFFFF"]
  by simp

text \<open>
  C5 (the code at a failing input). \<^verbatim>\<open>VerifyPassword\<close> compares with \<^verbatim>\<open>strcmp\<close>, which
  stops at the first NUL byte. From an erased EEPROM, a Setup-password stores the
  credential \<^verbatim>\<open>31 00 32 33 34\<close>, which the next boot loads. A Set-timeout with the
  different payload \<^verbatim>\<open>31 00 39 39 39\<close> and the timeout byte 200 is then answered
  TimeoutSaved, not PasswordMismatch, and the timeout becomes 200 in memory and in
  the EEPROM. The same happens without the reboot.
\<close>

theorem C5_set_timeout_nul_credential:
  "g_storedPassword (boot (eeprom (Control_main 1 fresh_eeprom nul_setup)) nul_set_timeout)
     = [0x31, 0, 0x32, 0x33, 0x34, 0]
   \<and> [0x31, 0, 0x39, 0x39, 0x39] \<noteq> [0x31, 0, 0x32, 0x33, 0x34 :: u8]
   \<and> g_autoLockTimeout (boot (eeprom (Control_main 1 fresh_eeprom nul_setup)) nul_set_timeout) = 5
   \<and> uart_tx (main_iteration
         (boot (eeprom (Control_main 1 fresh_eeprom nul_setup)) nul_set_timeout))
       = [RESP_TIMEOUT_SAVED]
   \<and> g_autoLockTimeout (main_iteration
         (boot (eeprom (Control_main 1 fresh_eeprom nul_setup)) nul_set_timeout)) = 200
   \<and> eeprom (main_iteration
         (boot (eeprom (Control_main 1 fresh_eeprom nul_setup)) nul_set_timeout))
         (CalculateAddress EEPROM_TIMEOUT_BLOCK EEPROM_TIMEOUT_OFFSET) = 200
   \<and> g_storedPassword (Control_main 1 fresh_eeprom (nul_setup @ nul_set_timeout))
       = [0x31, 0, 0xFF, 0xFF, 0xFF, 0]
   \<and> uart_tx (Control_main 2 fresh_eeprom (nul_setup @ nul_set_timeout))
       = [RESP_PASSWORD_MATCH, RESP_TIMEOUT_SAVED]
   \<and> g_autoLockTimeout (Control_main 2 fresh_eeprom (nul_setup @ nul_set_timeout)) = 200"
  by code_simp

text \<open>
  C6 (the code at a failing input). \<^verbatim>\<open>HandleSetupPassword\<close> compares the two buffers with
  \<^verbatim>\<open>strcmp\<close>, and \<^verbatim>\<open>SavePassword\<close> copies with \<^verbatim>\<open>strcpy\<close>; both stop at the first NUL
  byte. The two different payloads \<^verbatim>\<open>31 00 32 33 34\<close> and \<^verbatim>\<open>31 00 35 36 37\<close> are
  answered PasswordMatch: the first is written to the EEPROM with the validity
  marker, and the credential in memory (\<^verbatim>\<open>31 00\<close> and the old bytes behind it) differs
  from the one in the EEPROM.
\<close>

theorem C6_setup_password_nul_payloads:
  "[0x31, 0, 0x32, 0x33, 0x34] \<noteq> [0x31, 0, 0x35, 0x36, 0x37 :: u8]
   \<and> \<not> IsPasswordValid (boot fresh_eeprom nul_setup_unequal)
   \<and> uart_tx (main_iteration (boot fresh_eeprom nul_setup_unequal)) = [RESP_PASSWORD_MATCH]
   \<and> IsPasswordValid (main_iteration (boot fresh_eeprom nul_setup_unequal))
   \<and> g_storedPassword (LoadPassword (main_iteration (boot fresh_eeprom nul_setup_unequal)))
       = [0x31, 0, 0x32, 0x33, 0x34, 0]
   \<and> g_storedPassword (boot fresh_eeprom nul_setup_unequal) = [0xFF, 0xFF, 0xFF, 0xFF, 0xFF, 0]
   \<and> g_storedPassword (main_iteration (boot fresh_eeprom nul_setup_unequal))
       = [0x31, 0, 0xFF, 0xFF, 0xFF, 0]
   \<and> uart_tx (main_iteration (control_with [0x31, 0x33, 0x35, 0x37, 0x39] nul_setup_unequal))
       = [RESP_PASSWORD_MATCH]
   \<and> g_storedPassword (main_iteration (control_with [0x31, 0x33, 0x35, 0x37, 0x39] nul_setup_unequal))
       = [0x31, 0, 0x35, 0x37, 0x39, 0]
   \<and> g_storedPassword (LoadPassword
         (main_iteration (control_with [0x31, 0x33, 0x35, 0x37, 0x39] nul_setup_unequal)))
       = [0x31, 0, 0x32, 0x33, 0x34, 0]"
  by code_simp




text \<open>
  C8 (the code at a failing input). The same missing range check lets the value 0xFF
  of \<^verbatim>\<open>RESP_TIMEOUT\<close> on the wire: after Set-timeout with the right password and the
  timeout byte 0xFF, the first countdown byte that Open-door sends is 0xFF.
\<close>

theorem C8_sentinel_on_the_wire:
  "take 6 (uart_tx (Control_main 3 fresh_eeprom
      (map Some ([CMD_SETUP_PASSWORD] @ [0x31, 0x33, 0x35, 0x37, 0x39] @ [0x31, 0x33, 0x35, 0x37, 0x39]
               @ [CMD_SET_TIMEOUT] @ [0x31, 0x33, 0x35, 0x37, 0x39] @ [0xFF]
               @ [CMD_OPEN_DOOR] @ [0x31, 0x33, 0x35, 0x37, 0x39]))))
     = [RESP_PASSWORD_MATCH, RESP_TIMEOUT_SAVED, RESP_PASSWORD_MATCH, RESP_DOOR_UNLOCKING,
        RESP_COUNTDOWN_START, RESP_TIMEOUT]"
  by code_simp

text \<open>
  C9. For every auto-lock timeout \<open>t\<close> with \<open>20 \<le> t \<le> 30\<close>, the countdown that the
  door sequence sends contains the byte 20, which is the code of DoorLocking (0x14).
  The countdown receive loop of the HMI ends at this byte: it has shown the values
  \<open>t\<close> down to 21 only, and the countdown bytes 19 down to 1, the DoorLocking byte of
  the authority and DoorLocked are still unread when it exits.
\<close>

theorem C9_countdown_20_ends_receive_loop:
  assumes "20 \<le> t" and "t \<le> 30" and "g_autoLockTimeout s = t"
  shows "RESP_DOOR_LOCKING = 20
     \<and> uart_tx (PerformDoorOperation s) =
          uart_tx s @ [RESP_DOOR_UNLOCKING, RESP_COUNTDOWN_START] @ countdown_bytes t @
            [RESP_DOOR_LOCKING, RESP_DOOR_LOCKED]
     \<and> 20 \<in> set (countdown_bytes t)
     \<and> ReceiveCountdown
          (h\<lparr>hmi_rx := map Some (countdown_bytes t @ [RESP_DOOR_LOCKING, RESP_DOOR_LOCKED])\<rparr>)
        = Some (h\<lparr>hmi_rx := map Some ([19, 18, 17, 16, 15, 14, 13, 12, 11, 10, 9, 8, 7, 6, 5, 4,
                                        3, 2, 1] @ [RESP_DOOR_LOCKING, RESP_DOOR_LOCKED]),
                  lcd_countdown := lcd_countdown h @ take (unat t - 20) (countdown_bytes t)\<rparr>)"
proof -
  have lo: "20 \<le> unat t" and hi: "unat t \<le> 30"
    using assms(1,2) by (simp_all add: word_le_nat_alt)
  let ?pre = "map of_nat (rev [21..<Suc (unat t)]) :: u8 list"
  have split: "countdown_bytes t = ?pre @ 20 # countdown_bytes 19"
    using lo by (rule countdown_bytes_split)
  have len: "length ?pre = unat t - 20"
    using lo by (simp only: length_map length_rev length_upt)
  have "countdown_loop (map Some (countdown_bytes t @ [RESP_DOOR_LOCKING, RESP_DOOR_LOCKED]))
          (lcd_countdown h)
        = countdown_loop (map Some (20 # countdown_bytes 19 @ [RESP_DOOR_LOCKING, RESP_DOOR_LOCKED]))
            (lcd_countdown h @ ?pre)"
    using countdown_loop_skip[OF high_countdown_bytes[OF hi],
        of "map Some (20 # countdown_bytes 19 @ [RESP_DOOR_LOCKING, RESP_DOOR_LOCKED])"
           "lcd_countdown h"]
    by (simp add: split)
  also have "\<dots> = Some (map Some (countdown_bytes 19 @ [RESP_DOOR_LOCKING, RESP_DOOR_LOCKED]),
                         lcd_countdown h @ ?pre)"
    by (simp add: RESP_DOOR_LOCKING_def)
  finally have loop: "countdown_loop
        (map Some (countdown_bytes t @ [RESP_DOOR_LOCKING, RESP_DOOR_LOCKED])) (lcd_countdown h)
      = Some (map Some (countdown_bytes 19 @ [RESP_DOOR_LOCKING, RESP_DOOR_LOCKED]),
              lcd_countdown h @ ?pre)" .
  have shown: "take (unat t - 20) (countdown_bytes t) = ?pre"
    using len by (simp add: split)
  have gen: "ReceiveCountdown (h\<lparr>hmi_rx := X\<rparr>) = Some (h\<lparr>hmi_rx := R, lcd_countdown := L\<rparr>)"
    if "countdown_loop X (lcd_countdown h) = Some (R, L)" for X R L
    using that by (simp add: ReceiveCountdown_def)
  have recv: "ReceiveCountdown
        (h\<lparr>hmi_rx := map Some (countdown_bytes t @ [RESP_DOOR_LOCKING, RESP_DOOR_LOCKED])\<rparr>)
      = Some (h\<lparr>hmi_rx := map Some (countdown_bytes 19 @ [RESP_DOOR_LOCKING, RESP_DOOR_LOCKED]),
                lcd_countdown := lcd_countdown h @ take (unat t - 20) (countdown_bytes t)\<rparr>)"
    unfolding shown by (rule gen[OF loop])
  have mem: "20 \<in> set (countdown_bytes t)"
    by (simp add: split)
  have tx: "uart_tx (PerformDoorOperation s) =
          uart_tx s @ [RESP_DOOR_UNLOCKING, RESP_COUNTDOWN_START] @ countdown_bytes t @
            [RESP_DOOR_LOCKING, RESP_DOOR_LOCKED]"
    by (simp add: PerformDoorOperation_eq assms(3))
  have code: "RESP_DOOR_LOCKING = 20"
    by (simp add: RESP_DOOR_LOCKING_def)
  from code tx mem recv show ?thesis
    unfolding countdown_bytes_19 by (intro conjI)
qed


theorem C9_countdown_20_ends_receive_loop_witness:
  "(20 :: u8) \<le> 25 \<and> (25 :: u8) \<le> 30
   \<and> uart_tx (PerformDoorOperation
        ((control_with [0x31, 0x33, 0x35, 0x37, 0x39] [])\<lparr>g_autoLockTimeout := 25\<rparr>))
      = [RESP_DOOR_UNLOCKING, RESP_COUNTDOWN_START, 25, 24, 23, 22, 21, 20, 19, 18, 17, 16, 15,
         14, 13, 12, 11, 10, 9, 8, 7, 6, 5, 4, 3, 2, 1, RESP_DOOR_LOCKING, RESP_DOOR_LOCKED]
   \<and> ReceiveCountdown
        ((hmi_with [] [])\<lparr>hmi_rx := map Some ([25, 24, 23, 22, 21, 20, 19, 18, 17, 16, 15, 14, 13,
           12, 11, 10, 9, 8, 7, 6, 5, 4, 3, 2, 1] @ [RESP_DOOR_LOCKING, RESP_DOOR_LOCKED])\<rparr>)
      = Some ((hmi_with [] [])\<lparr>hmi_rx := map Some ([19, 18, 17, 16, 15, 14, 13, 12, 11, 10, 9, 8,
           7, 6, 5, 4, 3, 2, 1] @ [RESP_DOOR_LOCKING, RESP_DOOR_LOCKED]),
           lcd_countdown := [25, 24, 23, 22, 21]\<rparr>)"
  using C9_countdown_20_ends_receive_loop [of 25
      "(control_with [0x31, 0x33, 0x35, 0x37, 0x39] [])\<lparr>g_autoLockTimeout := 25\<rparr>"
      "hmi_with [] []"]
  by (simp add: countdown_bytes_25 control_with_def hmi_with_def resp_defs)

text \<open>
  C10 (amended). A successful Erase answers EepromErased and leaves the credential
  \<^verbatim>\<open>"00000"\<close> and the timeout 5 in memory and no validity marker. From then until the
  next reboot or the next Setup-password that saves a credential (any events \<open>es\<close>
  with \<open>no_setup_saves\<close>), the credential in memory stays \<^verbatim>\<open>"00000"\<close>,
  Check-password-exists answers NoPassword, and Open-door, Change-password, Set-timeout
  and Erase given the payload \<^verbatim>\<open>"00000"\<close> succeed. The counterexample: a Setup-password
  after the erase (what the HMI does next) replaces the credential, and Open-door with
  \<^verbatim>\<open>"00000"\<close> is refused before any reboot.
\<close>

theorem C10_after_erase:
  assumes "length (g_storedPassword s0) = 6"
    and "uart_rx s0 = Some CMD_ERASE_EEPROM # r"
    and "VerifyPassword (payload 5 r @ [0]) s0"
    and "no_setup_saves (main_iteration s0) es"
    and "s = run (main_iteration s0) es"
  shows "(uart_tx (main_iteration s0) = uart_tx s0 @ [RESP_EEPROM_ERASED]
          \<and> g_storedPassword (main_iteration s0) = zeros @ [0]
          \<and> g_autoLockTimeout (main_iteration s0) = 5
          \<and> \<not> IsPasswordValid (main_iteration s0))
         \<and> g_storedPassword s = zeros @ [0]
         \<and> \<not> IsPasswordValid s
         \<and> uart_tx (main_iteration (s\<lparr>uart_rx := Some CMD_CHECK_PASSWORD # rest\<rparr>))
             = uart_tx s @ [RESP_NO_PASSWORD]
         \<and> uart_tx (main_iteration (s\<lparr>uart_rx := Some CMD_OPEN_DOOR # map Some zeros @ rest\<rparr>))
             = uart_tx s @ [RESP_PASSWORD_MATCH, RESP_DOOR_UNLOCKING, RESP_COUNTDOWN_START]
                 @ countdown_bytes (g_autoLockTimeout s) @ [RESP_DOOR_LOCKING, RESP_DOOR_LOCKED]
         \<and> uart_tx (main_iteration (s\<lparr>uart_rx := Some CMD_CHANGE_PASSWORD # map Some zeros @ rest\<rparr>))
             = uart_tx s @ [RESP_PASSWORD_MATCH]
         \<and> uart_tx (main_iteration (s\<lparr>uart_rx := Some CMD_SET_TIMEOUT # map Some zeros @ rest\<rparr>))
             = uart_tx s @ [RESP_TIMEOUT_SAVED]
         \<and> uart_tx (main_iteration (s\<lparr>uart_rx := Some CMD_ERASE_EEPROM # map Some zeros @ rest\<rparr>))
             = uart_tx s @ [RESP_EEPROM_ERASED]"
proof -
  have "erased_state (main_iteration s0)"
    using assms(1,2,3) by (rule erase_erased_state)
  then have e: "erased_state s"
    unfolding assms(5) using assms(4) by (rule run_erased_state)
  then have cred: "g_storedPassword s = zeros @ [0]" and flag: "eeprom s 12 = 0xFFFFFFFF"
    by (simp_all add: erased_state_def)
  have v: "VerifyPassword (zeros @ [0]) s"
    using cred by (rule VerifyPassword_zeros)
  have p: "payload 5 (map Some zeros @ rest) = zeros"
    using payload_bytes[of zeros 5 rest] by (simp add: zeros_def)
  have invalid: "\<not> IsPasswordValid s"
    using flag
    by (simp add: IsPasswordValid_def EEPROM_ReadWord_valid layout_defs addresses
          PASSWORD_VALID_MARKER_def)
  have first: "uart_tx (main_iteration s0) = uart_tx s0 @ [RESP_EEPROM_ERASED]
      \<and> g_storedPassword (main_iteration s0) = zeros @ [0]
      \<and> g_autoLockTimeout (main_iteration s0) = 5
      \<and> \<not> IsPasswordValid (main_iteration s0)"
    using assms(1,3)
    by (simp add: main_iteration_cmd[OF assms(2)] dispatch_simps HandleEraseEEPROM_eq
          strcpy_zeros DEFAULT_TIMEOUT_def IsPasswordValid_def EEPROM_ReadWord_valid
          layout_defs addresses PASSWORD_VALID_MARKER_def)
  have check: "uart_tx (main_iteration (s\<lparr>uart_rx := Some CMD_CHECK_PASSWORD # rest\<rparr>))
      = uart_tx s @ [RESP_NO_PASSWORD]"
    using flag
    by (simp add: main_iteration_def dispatch_simps HandleCheckPassword_eq
          PASSWORD_VALID_MARKER_def)
  have "open": "uart_tx (main_iteration (s\<lparr>uart_rx := Some CMD_OPEN_DOOR # map Some zeros @ rest\<rparr>))
      = uart_tx s @ [RESP_PASSWORD_MATCH, RESP_DOOR_UNLOCKING, RESP_COUNTDOWN_START]
          @ countdown_bytes (g_autoLockTimeout s) @ [RESP_DOOR_LOCKING, RESP_DOOR_LOCKED]"
    using v by (simp add: main_iteration_def dispatch_simps HandleOpenDoor_eq p)
  have change: "uart_tx (main_iteration (s\<lparr>uart_rx := Some CMD_CHANGE_PASSWORD # map Some zeros @ rest\<rparr>))
      = uart_tx s @ [RESP_PASSWORD_MATCH]"
    using v by (simp add: main_iteration_def dispatch_simps HandleChangePassword_eq p)
  have settime: "uart_tx (main_iteration (s\<lparr>uart_rx := Some CMD_SET_TIMEOUT # map Some zeros @ rest\<rparr>))
      = uart_tx s @ [RESP_TIMEOUT_SAVED]"
    using v by (simp add: main_iteration_def dispatch_simps HandleSetTimeout_eq p Let_def)
  have erase: "uart_tx (main_iteration (s\<lparr>uart_rx := Some CMD_ERASE_EEPROM # map Some zeros @ rest\<rparr>))
      = uart_tx s @ [RESP_EEPROM_ERASED]"
    using v by (simp add: main_iteration_def dispatch_simps HandleEraseEEPROM_eq p)
  from first cred invalid check "open" change settime erase show ?thesis
    by blast
qed

theorem C10_after_erase_witness:
  "length (g_storedPassword erase_example) = 6
   \<and> VerifyPassword (payload 5 (map Some [0x31, 0x33, 0x35, 0x37, 0x39]) @ [0]) erase_example
   \<and> no_setup_saves (main_iteration erase_example) events_example
   \<and> g_storedPassword (main_iteration erase_example) = [0x30, 0x30, 0x30, 0x30, 0x30, 0]
   \<and> g_autoLockTimeout (main_iteration erase_example) = 5
   \<and> uart_tx (run (main_iteration erase_example) events_example)
       = [RESP_EEPROM_ERASED, RESP_TIMEOUT_SAVED, RESP_PASSWORD_MISMATCH, RESP_PASSWORD_MATCH,
          RESP_DOOR_UNLOCKING, RESP_COUNTDOWN_START, 10, 9, 8, 7, 6, 5, 4, 3, 2, 1,
          RESP_DOOR_LOCKING, RESP_DOOR_LOCKED]
   \<and> g_storedPassword (run (main_iteration erase_example) events_example)
       = [0x30, 0x30, 0x30, 0x30, 0x30, 0]
   \<and> uart_tx (main_iteration ((run (main_iteration erase_example) events_example)
          \<lparr>uart_rx := Some CMD_CHECK_PASSWORD # []\<rparr>))
       = uart_tx (run (main_iteration erase_example) events_example) @ [RESP_NO_PASSWORD]
   \<and> uart_tx (main_iteration ((run (main_iteration erase_example) events_example)
          \<lparr>uart_rx := Some CMD_CHANGE_PASSWORD # map Some zeros @ []\<rparr>))
       = uart_tx (run (main_iteration erase_example) events_example) @ [RESP_PASSWORD_MATCH]"
proof -
  have 1: "length (g_storedPassword erase_example) = 6"
    by code_simp
  have 2: "uart_rx erase_example = Some CMD_ERASE_EEPROM # map Some [0x31, 0x33, 0x35, 0x37, 0x39]"
    by (simp add: erase_example_def control_with_def)
  have 3: "VerifyPassword (payload 5 (map Some [0x31, 0x33, 0x35, 0x37, 0x39]) @ [0]) erase_example"
    by code_simp
  have 4: "no_setup_saves (main_iteration erase_example) events_example"
    by code_simp
  have 5: "uart_tx (run (main_iteration erase_example) events_example)
       = [RESP_EEPROM_ERASED, RESP_TIMEOUT_SAVED, RESP_PASSWORD_MISMATCH, RESP_PASSWORD_MATCH,
          RESP_DOOR_UNLOCKING, RESP_COUNTDOWN_START, 10, 9, 8, 7, 6, 5, 4, 3, 2, 1,
          RESP_DOOR_LOCKING, RESP_DOOR_LOCKED]"
    by code_simp
  show ?thesis
    using C10_after_erase [OF 1 2 3 4 refl, of "[]"] 1 3 4 5
    by (simp add: zeros_def)
qed

theorem C10_after_erase_counterexample:
  "uart_tx (Control_main 4 fresh_eeprom
      (map Some ([CMD_SETUP_PASSWORD] @ [0x31, 0x33, 0x35, 0x37, 0x39] @ [0x31, 0x33, 0x35, 0x37, 0x39]
               @ [CMD_ERASE_EEPROM] @ [0x31, 0x33, 0x35, 0x37, 0x39]
               @ [CMD_SETUP_PASSWORD] @ [0x31, 0x32, 0x33, 0x34, 0x35] @ [0x31, 0x32, 0x33, 0x34, 0x35]
               @ [CMD_OPEN_DOOR] @ [0x30, 0x30, 0x30, 0x30, 0x30])))
     = [RESP_PASSWORD_MATCH, RESP_EEPROM_ERASED, RESP_PASSWORD_MATCH, RESP_PASSWORD_MISMATCH]"
  by code_simp

end
